theory Spec2Isabelle
  imports Complex_Main
begin

section \<open>JavaScript values\<close>

text \<open>
  A JavaScript number is modelled as an exact rational or \<^verbatim>\<open>NaN\<close>. The rounding of
  binary64 arithmetic, the infinities and the negative zero are not represented: the
  results below are stated at values on which binary64 arithmetic is exact, or do not
  depend on the numeric value at all. Strings are lists of 8-bit characters.
\<close>

datatype jsnum = Num rat | NaN

definition js_mul :: "jsnum \<Rightarrow> jsnum \<Rightarrow> jsnum" where
  "js_mul x y = (case (x, y) of (Num a, Num b) \<Rightarrow> Num (a * b) | _ \<Rightarrow> NaN)"

text \<open>Every divisor in the source is a non-zero constant or a power of ten.\<close>

definition js_div :: "jsnum \<Rightarrow> jsnum \<Rightarrow> jsnum" where
  "js_div x y =
     (case (x, y) of (Num a, Num b) \<Rightarrow> (if b = 0 then NaN else Num (a / b)) | _ \<Rightarrow> NaN)"

text \<open>\<^verbatim>\<open>x < y\<close>: false as soon as one side is \<^verbatim>\<open>NaN\<close>.\<close>

definition js_lt :: "jsnum \<Rightarrow> jsnum \<Rightarrow> bool" where
  "js_lt x y = (case (x, y) of (Num a, Num b) \<Rightarrow> a < b | _ \<Rightarrow> False)"

text \<open>\<^verbatim>\<open>v || 0\<close> on an optional JSON number, and \<^verbatim>\<open>v || d\<close> on an optional string.\<close>

definition or_zero :: "rat option \<Rightarrow> jsnum" where
  "or_zero v = (case v of None \<Rightarrow> Num 0 | Some q \<Rightarrow> Num q)"

definition or_string :: "string option \<Rightarrow> string \<Rightarrow> string" where
  "or_string v d = (case v of None \<Rightarrow> d | Some s \<Rightarrow> (if s = [] then d else s))"

definition toLowerCase :: "string \<Rightarrow> string" where
  "toLowerCase s =
     map (\<lambda>c. if 65 \<le> (of_char c :: nat) \<and> (of_char c :: nat) \<le> 90
              then char_of ((of_char c :: nat) + 32) else c) s"

subsection \<open>parseInt and parseFloat\<close>

definition is_space :: "char \<Rightarrow> bool" where
  "is_space c = ((of_char c :: nat) \<in> {9, 10, 11, 12, 13, 32})"

definition digit_val :: "char \<Rightarrow> nat option" where
  "digit_val c =
     (let n = (of_char c :: nat) in
      if 48 \<le> n \<and> n \<le> 57 then Some (n - 48)
      else if 97 \<le> n \<and> n \<le> 122 then Some (n - 87)
      else if 65 \<le> n \<and> n \<le> 90 then Some (n - 55)
      else None)"

fun take_digits :: "nat \<Rightarrow> string \<Rightarrow> nat list" where
  "take_digits R [] = []"
| "take_digits R (c # cs) =
     (case digit_val c of
        None \<Rightarrow> []
      | Some d \<Rightarrow> (if d < R then d # take_digits R cs else []))"

definition digits_value :: "nat \<Rightarrow> nat list \<Rightarrow> nat" where
  "digits_value R ds = foldl (\<lambda>acc d. acc * R + d) 0 ds"

definition strip_sign :: "string \<Rightarrow> bool \<times> string" where
  "strip_sign s =
     (case s of
        c # cs \<Rightarrow>
          (if c = CHR ''-'' then (True, cs) else if c = CHR ''+'' then (False, cs) else (False, s))
      | [] \<Rightarrow> (False, s))"

definition has_hex_prefix :: "string \<Rightarrow> bool" where
  "has_hex_prefix s = (take 2 s = ''0x'' \<or> take 2 s = ''0X'')"

text \<open>
  \<^verbatim>\<open>parseInt(string, radix)\<close>: leading white space and a sign are skipped, a \<^verbatim>\<open>0x\<close>
  prefix selects radix 16 when the radix is absent or 16, the longest prefix of digits
  of the radix is read, and no digit at all gives \<^verbatim>\<open>NaN\<close>.
\<close>

definition parseInt :: "string \<Rightarrow> nat option \<Rightarrow> jsnum" where
  "parseInt string radix =
     (let (neg, s) = strip_sign (dropWhile is_space string);
          R0 = (case radix of None \<Rightarrow> 0 | Some r \<Rightarrow> r);
          hex = ((R0 = 0 \<or> R0 = 16) \<and> has_hex_prefix s);
          R = (if hex then 16 else if R0 = 0 then 10 else R0);
          ds = take_digits R (if hex then drop 2 s else s)
      in if R0 \<noteq> 0 \<and> (R0 < 2 \<or> 36 < R0) then NaN
         else if ds = [] then NaN
         else Num ((if neg then - 1 else 1) * of_nat (digits_value R ds)))"

definition is_digit :: "char \<Rightarrow> bool" where
  "is_digit c = (48 \<le> (of_char c :: nat) \<and> (of_char c :: nat) \<le> 57)"

definition decimal_value :: "string \<Rightarrow> nat" where
  "decimal_value ds = digits_value 10 (take_digits 10 ds)"

text \<open>The exponent part of a decimal literal: \<^verbatim>\<open>e\<close> or \<^verbatim>\<open>E\<close>, a sign, at least one digit.\<close>

definition exponent_part :: "string \<Rightarrow> int" where
  "exponent_part s =
     (case s of
        [] \<Rightarrow> 0
      | c # cs \<Rightarrow>
          (if c = CHR ''e'' \<or> c = CHR ''E'' then
             (let (neg, ds) = strip_sign cs
              in if takeWhile is_digit ds = [] then 0
                 else (if neg then - 1 else 1) * int (decimal_value (takeWhile is_digit ds)))
           else 0))"

text \<open>
  \<^verbatim>\<open>parseFloat(string)\<close>: the longest prefix that is a decimal literal (digits, a
  fraction, an exponent). The literal \<^verbatim>\<open>Infinity\<close> is outside the model.
\<close>

definition parseFloat :: "string \<Rightarrow> jsnum" where
  "parseFloat string =
     (let (neg, s) = strip_sign (dropWhile is_space string);
          ip = takeWhile is_digit s;
          r1 = dropWhile is_digit s;
          fp = (case r1 of [] \<Rightarrow> [] | c # cs \<Rightarrow> (if c = CHR ''.'' then takeWhile is_digit cs else []));
          r2 = (case r1 of [] \<Rightarrow> [] | c # cs \<Rightarrow> (if c = CHR ''.'' then dropWhile is_digit cs else r1));
          e = exponent_part r2;
          m = (of_nat (decimal_value (ip @ fp)) :: rat) / 10 ^ length fp
      in if ip = [] \<and> fp = [] then NaN
         else Num ((if neg then - 1 else 1) * m * (if 0 \<le> e then 10 ^ nat e else 1 / 10 ^ nat (- e))))"

subsection \<open>Printing numbers\<close>

definition digit_char :: "nat \<Rightarrow> char" where
  "digit_char d = ''0123456789'' ! d"

function show_nat :: "nat \<Rightarrow> string" where
  "show_nat n = (if n < 10 then [digit_char n] else show_nat (n div 10) @ [digit_char (n mod 10)])"
  by pat_completeness auto
termination
  by (relation "measure id") auto

declare show_nat.simps [simp del]

text \<open>
  The number formatting of the host: \<^verbatim>\<open>Number.prototype.toString\<close> on a value that is
  not an integer (the shortest decimal that reads back as the same binary64 value),
  \<^verbatim>\<open>toExponential\<close> and the locale's \<^verbatim>\<open>toLocaleString\<close>. They belong to the runtime,
  not to the repository, and are parameters of the model.
\<close>

record host =
  fractionToString :: "rat \<Rightarrow> string"
  toExponential :: "jsnum \<Rightarrow> nat \<Rightarrow> string"
  toLocaleString :: "jsnum \<Rightarrow> nat \<Rightarrow> string"

definition is_integer :: "rat \<Rightarrow> bool" where
  "is_integer q = (of_int \<lfloor>q\<rfloor> = q)"

text \<open>\<^verbatim>\<open>x.toString()\<close>: an integer below \<open>10\<^sup>2\<^sup>1\<close> in magnitude prints its digits.\<close>

definition js_toString :: "host \<Rightarrow> jsnum \<Rightarrow> string" where
  "js_toString h x =
     (case x of
        NaN \<Rightarrow> ''NaN''
      | Num q \<Rightarrow>
          (if is_integer q \<and> \<bar>q\<bar> < 10 ^ 21
           then (if q < 0 then ''-'' else '''') @ show_nat (nat \<bar>\<lfloor>q\<rfloor>\<bar>)
           else fractionToString h q))"

text \<open>
  \<^verbatim>\<open>x.toFixed(f)\<close>: the integer nearest to \<open>x \<cdot> 10\<^sup>f\<close> (the larger one on a tie), padded
  to \<open>f + 1\<close> digits, with the point before the last \<open>f\<close> digits.
\<close>

definition toFixed :: "host \<Rightarrow> jsnum \<Rightarrow> nat \<Rightarrow> string" where
  "toFixed h x f =
     (case x of
        NaN \<Rightarrow> ''NaN''
      | Num q \<Rightarrow>
          (if 10 ^ 21 \<le> \<bar>q\<bar> then js_toString h x
           else
             (let m = show_nat (nat \<lfloor>\<bar>q\<bar> * 10 ^ f + 1 / 2\<rfloor>);
                  m' = replicate (f + 1 - length m) CHR ''0'' @ m;
                  k = length m' - f
              in (if q < 0 then ''-'' else '''') @
                 (if f = 0 then m' else take k m' @ ''.'' @ drop k m'))))"

section \<open>Address classification\<close>

text \<open>
  \<^verbatim>\<open>detectBlockchain\<close> (services/walletService.ts and wallet/walletUtils.ts) tests the
  address against two anchored regular expressions,
  \<^verbatim>\<open>/^0x[a-fA-F0-9]{40}$/\<close> and \<^verbatim>\<open>/^[1-9A-HJ-NP-Za-km-z]{32,44}$/\<close>.
  Both are sequences of counted atoms, where an atom is a literal character or a
  character class given by ranges. The matcher below is a backtracking matcher for
  this fragment, anchored at both ends (no flag is set, so \<^verbatim>\<open>$\<close> is the end of the
  input).
\<close>

datatype atom = Lit char | Class "(char \<times> char) list"

datatype piece = Piece atom nat nat

fun in_ranges :: "(char \<times> char) list \<Rightarrow> char \<Rightarrow> bool" where
  "in_ranges [] c = False"
| "in_ranges ((lo, hi) # rs) c =
     (((of_char lo :: nat) \<le> of_char c \<and> (of_char c :: nat) \<le> of_char hi) \<or> in_ranges rs c)"

fun atom_ok :: "atom \<Rightarrow> char \<Rightarrow> bool" where
  "atom_ok (Lit l) c = (c = l)"
| "atom_ok (Class rs) c = in_ranges rs c"

fun matches :: "piece list \<Rightarrow> string \<Rightarrow> bool" where
  "matches [] s = (s = [])"
| "matches (Piece a lo hi # ps) s =
     (if 0 < lo then
        (case s of [] \<Rightarrow> False
         | c # cs \<Rightarrow> atom_ok a c \<and> matches (Piece a (lo - 1) (hi - 1) # ps) cs)
      else
        (matches ps s \<or>
         (0 < hi \<and> (case s of [] \<Rightarrow> False
                    | c # cs \<Rightarrow> atom_ok a c \<and> matches (Piece a 0 (hi - 1) # ps) cs))))"

declare matches.simps [simp del]

definition hex_class :: atom where
  "hex_class = Class [(CHR ''a'', CHR ''f''), (CHR ''A'', CHR ''F''), (CHR ''0'', CHR ''9'')]"

definition base58_class :: atom where
  "base58_class = Class [(CHR ''1'', CHR ''9''), (CHR ''A'', CHR ''H''), (CHR ''J'', CHR ''N''),
                         (CHR ''P'', CHR ''Z''), (CHR ''a'', CHR ''k''), (CHR ''m'', CHR ''z'')]"

definition ethereum_regex :: "piece list" where
  "ethereum_regex = [Piece (Lit CHR ''0'') 1 1, Piece (Lit CHR ''x'') 1 1, Piece hex_class 40 40]"

definition solana_regex :: "piece list" where
  "solana_regex = [Piece base58_class 32 44]"

datatype chain = Ethereum | Solana

text \<open>The result \<open>None\<close> is the source's \<^verbatim>\<open>null\<close> (\<^verbatim>\<open>'unknown'\<close> in wallet/walletUtils.ts).\<close>

definition detectBlockchain :: "string \<Rightarrow> chain option" where
  "detectBlockchain address =
     (if matches ethereum_regex address then Some Ethereum
      else if matches solana_regex address then Some Solana
      else None)"

subsection \<open>The two formats in the specification's words\<close>

definition hex_digits :: string where
  "hex_digits = ''0123456789abcdefABCDEF''"

definition alphanumerics :: string where
  "alphanumerics = ''0123456789ABCDEFGHIJKLMNOPQRSTUVWXYZabcdefghijklmnopqrstuvwxyz''"

definition base58_alphabet :: "char set" where
  "base58_alphabet = set alphanumerics - {CHR ''0'', CHR ''O'', CHR ''I'', CHR ''l''}"

definition ethereum_format :: "string \<Rightarrow> bool" where
  "ethereum_format a =
     (take 2 a = ''0x'' \<and> length (drop 2 a) = 40 \<and> set (drop 2 a) \<subseteq> set hex_digits)"

definition solana_format :: "string \<Rightarrow> bool" where
  "solana_format a = (32 \<le> length a \<and> length a \<le> 44 \<and> set a \<subseteq> base58_alphabet)"

section \<open>The rate-limited dispatcher\<close>

text \<open>
  The outside world is a parameter. A peer answers the request that is sent when \<open>n\<close>
  requests have been sent before it with a latency in milliseconds and either a
  rejection or the response data. \<open>AxiosError (Some status)\<close> is a rejection whose
  \<^verbatim>\<open>error.response.status\<close> is \<open>status\<close>, \<open>AxiosError None\<close> one without a response.

  The state is the clock (\<^verbatim>\<open>Date.now()\<close>, in milliseconds), the module variable
  \<^verbatim>\<open>lastRequestTime\<close> and the record of the requests sent so far, each with the way it
  was sent: directly with \<^verbatim>\<open>axios\<close>, or through \<^verbatim>\<open>rateLimitedRequest\<close>. Time passes
  while the caller sleeps and while a request is in flight. A timer never fires early:
  \<open>late s t\<close> is the delay with which a timer due at time \<open>t\<close> fires.
\<close>

datatype request =
    EthGetBalance string
  | AlchemyGetTokenBalances string
  | AlchemyGetTokenMetadata string
  | EtherscanTxList string
  | CoinGeckoTokenPrice string string
  | CoinGeckoSimplePrice string
  | HeliusGetBalance string
  | HeliusGetTokenAccountsByOwner string
  | SolanaTokenList
  | HeliusGetSignaturesForAddress string nat
  | HeliusGetTransaction string

datatype route = Direct | Dispatched

datatype js_error = AxiosError "nat option" | TypeError

type_synonym 'a peer = "nat \<Rightarrow> nat \<times> (js_error + 'a)"

record runtime =
  now :: int
  lastRequestTime :: int
  sent :: "(route \<times> request) list"
  late :: "int \<Rightarrow> nat"

definition MIN_DELAY_MS :: int where
  "MIN_DELAY_MS = 500"

definition MAX_RETRIES :: nat where
  "MAX_RETRIES = 3"

definition sleep :: "int \<Rightarrow> runtime \<Rightarrow> runtime" where
  "sleep ms s = (let due = now s + max 0 ms in s\<lparr>now := due + int (late s due)\<rparr>)"

definition axios :: "route \<Rightarrow> request \<Rightarrow> 'a peer \<Rightarrow> runtime \<Rightarrow> (js_error + 'a) \<times> runtime" where
  "axios via config peer s =
     (case peer (length (sent s)) of
        (latency, outcome) \<Rightarrow>
          (outcome, s\<lparr>now := now s + int latency, sent := sent s @ [(via, config)]\<rparr>))"

text \<open>
  The first half of \<^verbatim>\<open>rateLimitedRequest\<close>: wait until \<^verbatim>\<open>MIN_DELAY_MS\<close> have passed
  since \<^verbatim>\<open>lastRequestTime\<close>, then set \<^verbatim>\<open>lastRequestTime\<close> to the current time.
\<close>

definition pace :: "runtime \<Rightarrow> runtime" where
  "pace s =
     (let elapsed = now s - lastRequestTime s;
          s1 = (if elapsed < MIN_DELAY_MS then sleep (MIN_DELAY_MS - elapsed) s else s)
      in s1\<lparr>lastRequestTime := now s1\<rparr>)"

text \<open>The test of the \<^verbatim>\<open>catch\<close> block on \<^verbatim>\<open>error.response?.status\<close>.\<close>

definition retryable :: "js_error \<Rightarrow> bool" where
  "retryable error =
     (case error of
        AxiosError (Some status) \<Rightarrow> status = 429 \<or> (500 \<le> status \<and> status < 600)
      | _ \<Rightarrow> False)"

function rateLimitedRequest ::
  "request \<Rightarrow> 'a peer \<Rightarrow> nat \<Rightarrow> runtime \<Rightarrow> (js_error + 'a) \<times> runtime" where
  "rateLimitedRequest config peer retries s =
     (case axios Dispatched config peer (pace s) of
        (Inr response, s') \<Rightarrow> (Inr response, s')
      | (Inl error, s') \<Rightarrow>
          (if retryable error \<and> retries < MAX_RETRIES
           then rateLimitedRequest config peer (retries + 1) (sleep (2 ^ retries * 1000) s')
           else (Inl error, s')))"
  by pat_completeness auto
termination
  by (relation "measure (\<lambda>(config, peer, retries, s). MAX_RETRIES - retries)") auto

declare rateLimitedRequest.simps [simp del]


section \<open>The wallet data model (services/walletService.ts)\<close>

record Token =
  t_symbol :: string
  t_name :: string
  t_balance :: string
  t_decimals :: nat
  t_tokenAddress :: string
  t_logo :: "string option"
  t_price :: jsnum
  t_value :: jsnum

record Transaction =
  tx_hash :: string
  tx_timestamp :: jsnum
  tx_from :: string
  tx_to :: string
  tx_value :: string
  tx_fee :: string
  tx_status :: string
  tx_type :: string

record WalletData =
  w_address :: string
  w_blockchain :: chain
  w_balance :: string
  w_balanceUsd :: jsnum
  w_tokens :: "Token list"
  w_transactions :: "Transaction list"

subsection \<open>Upstream payloads\<close>

text \<open>
  The fields the adapters read, with the types the providers document. An optional field
  is \<open>None\<close> when it is absent or \<^verbatim>\<open>null\<close>; the \<^verbatim>\<open>result\<close> of a JSON-RPC response is
  optional, since an RPC error arrives as a response without it.
\<close>

record token_balance =
  contractAddress :: string
  tokenBalance :: string

record token_metadata =
  md_symbol :: "string option"
  md_name :: "string option"
  md_decimals :: "nat option"
  md_logo :: "string option"

record etherscan_tx =
  e_hash :: string
  e_timeStamp :: string
  e_from :: string
  e_to :: string
  e_value :: string
  e_gasPrice :: string
  e_gasUsed :: string
  e_isError :: string

record etherscan_data =
  es_status :: string
  es_message :: "string option"
  es_result :: "etherscan_tx list option"

record token_account =
  mint :: string
  ta_decimals :: nat
  uiAmount :: "rat option"

record token_list_entry =
  tl_address :: string
  tl_symbol :: string
  tl_name :: string
  tl_logoURI :: "string option"

record account_key =
  pubkey :: string
  signer :: bool
  writable :: bool

record tx_meta =
  m_fee :: "rat option"
  m_err :: bool
  m_preBalances :: "rat list option"
  m_postBalances :: "rat list option"

record tx_details =
  d_blockTime :: "rat option"
  d_meta :: "tx_meta option"
  d_accountKeys :: "account_key list option"

text \<open>
  The world of a wallet fetch: the configuration value \<^verbatim>\<open>HELIUS_API_KEY\<close>, the host's
  number formatting, and one peer for each kind of request.
\<close>

record world =
  HELIUS_API_KEY :: string
  hst :: host
  eth_getBalance :: "string \<Rightarrow> string option peer"
  alchemy_getTokenBalances :: "string \<Rightarrow> token_balance list option option peer"
  alchemy_getTokenMetadata :: "string \<Rightarrow> token_metadata option peer"
  etherscan_txlist :: "string \<Rightarrow> etherscan_data option peer"
  coingecko_token_price :: "string \<Rightarrow> string \<Rightarrow> (string \<Rightarrow> rat option) peer"
  coingecko_simple_price :: "string \<Rightarrow> (string \<Rightarrow> rat option) peer"
  helius_getBalance :: "string \<Rightarrow> rat option peer"
  helius_getTokenAccountsByOwner :: "string \<Rightarrow> token_account list option option peer"
  solana_token_list :: "token_list_entry list peer"
  helius_getSignaturesForAddress :: "string \<Rightarrow> nat \<Rightarrow> string option list option peer"
  helius_getTransaction :: "string \<Rightarrow> tx_details option peer"

section \<open>The Ethereum adapter (services/walletService.ts)\<close>

text \<open>
  The \<^verbatim>\<open>try\<close> block around a price lookup: any rejection leaves the price at 0.
  \<^verbatim>\<open>data[key]?.usd || 0\<close> reads the price, keyed by the lower-cased address.
\<close>

definition token_price :: "world \<Rightarrow> string \<Rightarrow> string \<Rightarrow> runtime \<Rightarrow> jsnum \<times> runtime" where
  "token_price w platform address s =
     (case rateLimitedRequest (CoinGeckoTokenPrice platform address)
             (coingecko_token_price w platform address) 0 s of
        (Inl error, s') \<Rightarrow> (Num 0, s')
      | (Inr data, s') \<Rightarrow> (or_zero (data (toLowerCase address)), s'))"

definition native_price :: "world \<Rightarrow> string \<Rightarrow> runtime \<Rightarrow> jsnum \<times> runtime" where
  "native_price w coin s =
     (case rateLimitedRequest (CoinGeckoSimplePrice coin) (coingecko_simple_price w coin) 0 s of
        (Inl error, s') \<Rightarrow> (Num 0, s')
      | (Inr data, s') \<Rightarrow> (or_zero (data coin), s'))"

text \<open>\<^verbatim>\<open>metadata.decimals || 18\<close>: an absent or zero value gives 18.\<close>

definition decimals_or :: "nat option \<Rightarrow> nat \<Rightarrow> nat" where
  "decimals_or v d = (case v of None \<Rightarrow> d | Some n \<Rightarrow> (if n = 0 then d else n))"

text \<open>The callback of \<^verbatim>\<open>tokenBalances.map\<close>: one token of the listing.\<close>

definition ethereum_token ::
  "world \<Rightarrow> token_balance \<Rightarrow> runtime \<Rightarrow> (js_error + Token) \<times> runtime" where
  "ethereum_token w token s =
     (case axios Direct (AlchemyGetTokenMetadata (contractAddress token))
             (alchemy_getTokenMetadata w (contractAddress token)) s of
        (Inl error, s1) \<Rightarrow> (Inl error, s1)
      | (Inr None, s1) \<Rightarrow> (Inl TypeError, s1)
      | (Inr (Some metadata), s1) \<Rightarrow>
          (let balance = js_div (parseInt (tokenBalance token) (Some 16))
                           (Num (10 ^ decimals_or (md_decimals metadata) 18))
           in case token_price w ''ethereum'' (contractAddress token) s1 of
                (price, s2) \<Rightarrow>
                  (Inr \<lparr>t_symbol = or_string (md_symbol metadata) ''UNKNOWN'',
                        t_name = or_string (md_name metadata) ''Unknown Token'',
                        t_balance = js_toString (hst w) balance,
                        t_decimals = decimals_or (md_decimals metadata) 18,
                        t_tokenAddress = contractAddress token,
                        t_logo = md_logo metadata,
                        t_price = price,
                        t_value = js_mul balance price\<rparr>, s2)))"

text \<open>
  \<^verbatim>\<open>Promise.all\<close> over the callbacks. The tasks are run one after the other in the
  order of the listing, and the first rejection rejects the whole; the interleaving of
  the concurrent tasks is not modelled.
\<close>

fun ethereum_tokens ::
  "world \<Rightarrow> token_balance list \<Rightarrow> runtime \<Rightarrow> (js_error + Token list) \<times> runtime" where
  "ethereum_tokens w [] s = (Inr [], s)"
| "ethereum_tokens w (token # rest) s =
     (case ethereum_token w token s of
        (Inl error, s1) \<Rightarrow> (Inl error, s1)
      | (Inr t, s1) \<Rightarrow>
          (case ethereum_tokens w rest s1 of
             (Inl error, s2) \<Rightarrow> (Inl error, s2)
           | (Inr ts, s2) \<Rightarrow> (Inr (t # ts), s2)))"

text \<open>The callback of \<^verbatim>\<open>txResponse.data.result.map\<close>.\<close>

definition ethereum_transaction :: "host \<Rightarrow> string \<Rightarrow> etherscan_tx \<Rightarrow> Transaction" where
  "ethereum_transaction h address tx =
     \<lparr>tx_hash = e_hash tx,
      tx_timestamp = parseInt (e_timeStamp tx) None,
      tx_from = e_from tx,
      tx_to = e_to tx,
      tx_value = js_toString h (js_div (parseInt (e_value tx) None) (Num (10 ^ 18))),
      tx_fee = js_toString h
        (js_div (js_mul (parseInt (e_gasPrice tx) None) (parseInt (e_gasUsed tx) None))
           (Num (10 ^ 18))),
      tx_status = (if e_isError tx = ''0'' then ''success'' else ''failed''),
      tx_type = (if toLowerCase (e_from tx) = toLowerCase address then ''send'' else ''receive'')\<rparr>"

definition ethereum_transactions ::
  "host \<Rightarrow> string \<Rightarrow> etherscan_data option \<Rightarrow> Transaction list" where
  "ethereum_transactions h address data =
     (case data of
        None \<Rightarrow> []
      | Some d \<Rightarrow>
          (if es_status d = ''1'' then
             (case es_result d of
                None \<Rightarrow> []
              | Some result \<Rightarrow> map (ethereum_transaction h address) result)
           else []))"

text \<open>The body of the \<^verbatim>\<open>try\<close> block of \<^verbatim>\<open>getEthereumWalletData\<close>.\<close>

definition getEthereumWalletData_try ::
  "world \<Rightarrow> string \<Rightarrow> runtime \<Rightarrow> (js_error + WalletData) \<times> runtime" where
  "getEthereumWalletData_try w address s =
     (case axios Direct (EthGetBalance address) (eth_getBalance w address) s of
        (Inl error, s1) \<Rightarrow> (Inl error, s1)
      | (Inr balanceResult, s1) \<Rightarrow>
          (let balanceWei = (case balanceResult of None \<Rightarrow> NaN | Some hex \<Rightarrow> parseInt hex (Some 16));
               balanceEth = js_div balanceWei (Num (10 ^ 18))
           in case axios Direct (AlchemyGetTokenBalances address)
                     (alchemy_getTokenBalances w address) s1 of
                (Inl error, s2) \<Rightarrow> (Inl error, s2)
              | (Inr None, s2) \<Rightarrow> (Inl TypeError, s2)
              | (Inr (Some listing), s2) \<Rightarrow>
                  (case ethereum_tokens w (case listing of None \<Rightarrow> [] | Some l \<Rightarrow> l) s2 of
                     (Inl error, s3) \<Rightarrow> (Inl error, s3)
                   | (Inr tokens, s3) \<Rightarrow>
                       (case axios Direct (EtherscanTxList address) (etherscan_txlist w address) s3 of
                          (Inl error, s4) \<Rightarrow> (Inl error, s4)
                        | (Inr txData, s4) \<Rightarrow>
                            (case native_price w ''ethereum'' s4 of
                               (ethPrice, s5) \<Rightarrow>
                                 (Inr \<lparr>w_address = address,
                                       w_blockchain = Ethereum,
                                       w_balance = js_toString (hst w) balanceEth,
                                       w_balanceUsd = js_mul balanceEth ethPrice,
                                       w_tokens = tokens,
                                       w_transactions =
                                         ethereum_transactions (hst w) address txData\<rparr>, s5))))))"

text \<open>The \<^verbatim>\<open>catch\<close> block replaces every error by one message.\<close>

definition getEthereumWalletData ::
  "world \<Rightarrow> string \<Rightarrow> runtime \<Rightarrow> (string + WalletData) \<times> runtime" where
  "getEthereumWalletData w address s =
     (case getEthereumWalletData_try w address s of
        (Inl error, s') \<Rightarrow> (Inl ''Failed to fetch Ethereum wallet data'', s')
      | (Inr data, s') \<Rightarrow> (Inr data, s'))"

section \<open>The Solana adapter (services/walletService.ts)\<close>

text \<open>The callback of \<^verbatim>\<open>tokenAccounts.map\<close>: one parsed token account.\<close>

definition solana_token_info ::
  "world \<Rightarrow> token_account \<Rightarrow> runtime \<Rightarrow> (string \<times> string \<times> string option) \<times> runtime" where
  "solana_token_info w account s =
     (case rateLimitedRequest SolanaTokenList (solana_token_list w) 0 s of
        (Inl error, s') \<Rightarrow> ((''UNKNOWN'', ''Unknown Token'', Some ''''), s')
      | (Inr tokens, s') \<Rightarrow>
          (case find (\<lambda>t. tl_address t = mint account) tokens of
             None \<Rightarrow> ((''UNKNOWN'', ''Unknown Token'', Some ''''), s')
           | Some foundToken \<Rightarrow>
               ((tl_symbol foundToken, tl_name foundToken, tl_logoURI foundToken), s')))"

text \<open>\<^verbatim>\<open>balance.toString()\<close> throws a \<^verbatim>\<open>TypeError\<close> when \<^verbatim>\<open>uiAmount\<close> is \<^verbatim>\<open>null\<close>.\<close>

definition solana_token ::
  "world \<Rightarrow> token_account \<Rightarrow> runtime \<Rightarrow> (js_error + Token) \<times> runtime" where
  "solana_token w account s =
     (case solana_token_info w account s of
        ((symbol, name, logo), s1) \<Rightarrow>
          (case token_price w ''solana'' (mint account) s1 of
             (price, s2) \<Rightarrow>
               (case uiAmount account of
                  None \<Rightarrow> (Inl TypeError, s2)
                | Some balance \<Rightarrow>
                    (Inr \<lparr>t_symbol = symbol,
                          t_name = name,
                          t_balance = js_toString (hst w) (Num balance),
                          t_decimals = decimals_or (Some (ta_decimals account)) 9,
                          t_tokenAddress = mint account,
                          t_logo = logo,
                          t_price = price,
                          t_value = js_mul (Num balance) price\<rparr>, s2))))"

fun solana_tokens ::
  "world \<Rightarrow> token_account list \<Rightarrow> runtime \<Rightarrow> (js_error + Token list) \<times> runtime" where
  "solana_tokens w [] s = (Inr [], s)"
| "solana_tokens w (account # rest) s =
     (case solana_token w account s of
        (Inl error, s1) \<Rightarrow> (Inl error, s1)
      | (Inr t, s1) \<Rightarrow>
          (case solana_tokens w rest s1 of
             (Inl error, s2) \<Rightarrow> (Inl error, s2)
           | (Inr ts, s2) \<Rightarrow> (Inr (t # ts), s2)))"

text \<open>
  \<^verbatim>\<open>accountKeys?.findIndex(acc => acc.pubkey === address)\<close>: \<open>None\<close> is \<^verbatim>\<open>undefined\<close>
  (no account list), \<open>Some (- 1)\<close> is "not found".
\<close>

fun findIndex :: "('a \<Rightarrow> bool) \<Rightarrow> 'a list \<Rightarrow> int" where
  "findIndex P [] = - 1"
| "findIndex P (x # xs) = (if P x then 0 else (let i = findIndex P xs in if i < 0 then - 1 else i + 1))"

text \<open>\<^verbatim>\<open>xs[i]\<close>: \<^verbatim>\<open>undefined\<close> outside the array and for the index \<^verbatim>\<open>undefined\<close>.\<close>

definition at_index :: "'a list \<Rightarrow> int option \<Rightarrow> 'a option" where
  "at_index xs i =
     (case i of
        None \<Rightarrow> None
      | Some k \<Rightarrow> (if 0 \<le> k \<and> nat k < length xs then Some (xs ! nat k) else None))"

definition fee_payer :: "account_key list option \<Rightarrow> string" where
  "fee_payer accountKeys =
     (case accountKeys of
        None \<Rightarrow> ''''
      | Some keys \<Rightarrow>
          (case find (\<lambda>acc. signer acc \<and> writable acc) keys of
             Some feePayerAccount \<Rightarrow> pubkey feePayerAccount
           | None \<Rightarrow> (case keys of [] \<Rightarrow> '''' | k # _ \<Rightarrow> pubkey k)))"

definition balance_direction ::
  "string \<Rightarrow> account_key list option \<Rightarrow> tx_meta option \<Rightarrow> string" where
  "balance_direction address accountKeys meta =
     (let accountIndex = map_option (findIndex (\<lambda>acc. pubkey acc = address)) accountKeys
      in case meta of
           None \<Rightarrow> ''unknown''
         | Some m \<Rightarrow>
             (case (m_preBalances m, m_postBalances m) of
                (Some pre, Some post) \<Rightarrow>
                  (if accountIndex \<noteq> Some (- 1) then
                     (case (at_index pre accountIndex, at_index post accountIndex) of
                        (Some preBalance, Some postBalance) \<Rightarrow>
                          (if postBalance < preBalance then ''send''
                           else if preBalance < postBalance then ''receive''
                           else ''unknown'')
                      | _ \<Rightarrow> ''unknown'')
                   else ''unknown'')
              | _ \<Rightarrow> ''unknown''))"

text \<open>
  The transaction pushed for one signature whose details were found; \<open>t\<close> is the
  clock when the details arrive.
\<close>

definition solana_transaction ::
  "host \<Rightarrow> string \<Rightarrow> string \<Rightarrow> tx_details \<Rightarrow> int \<Rightarrow> Transaction" where
  "solana_transaction h address signature txDetails t =
     (let blockTime = (case d_blockTime txDetails of
                         None \<Rightarrow> of_int t / 1000
                       | Some b \<Rightarrow> (if b = 0 then of_int t / 1000 else b));
          fee = or_zero (case d_meta txDetails of None \<Rightarrow> None | Some m \<Rightarrow> m_fee m);
          feePayer = fee_payer (d_accountKeys txDetails);
          type0 = balance_direction address (d_accountKeys txDetails) (d_meta txDetails);
          type = (if type0 = ''unknown'' \<and> feePayer = address then ''send'' else type0)
      in \<lparr>tx_hash = signature,
          tx_timestamp = Num (blockTime * 1000),
          tx_from = feePayer,
          tx_to = '''',
          tx_value = js_toString h (js_div fee (Num (10 ^ 9))),
          tx_fee = js_toString h (js_div fee (Num (10 ^ 9))),
          tx_status = (case d_meta txDetails of
                         None \<Rightarrow> ''success''
                       | Some m \<Rightarrow> (if m_err m then ''failed'' else ''success'')),
          tx_type = type\<rparr>)"

text \<open>
  The loop over the signatures: an absent or empty signature is skipped, a rejected
  detail request is logged and skipped, absent details are skipped.
\<close>

fun solana_transactions ::
  "world \<Rightarrow> string \<Rightarrow> string option list \<Rightarrow> runtime \<Rightarrow> Transaction list \<times> runtime" where
  "solana_transactions w address [] s = ([], s)"
| "solana_transactions w address (sig # sigs) s =
     (case sig of
        None \<Rightarrow> solana_transactions w address sigs s
      | Some signature \<Rightarrow>
          (if signature = [] then solana_transactions w address sigs s
           else
             (case rateLimitedRequest (HeliusGetTransaction signature)
                     (helius_getTransaction w signature) 0 s of
                (Inl error, s1) \<Rightarrow> solana_transactions w address sigs s1
              | (Inr None, s1) \<Rightarrow> solana_transactions w address sigs s1
              | (Inr (Some txDetails), s1) \<Rightarrow>
                  (case solana_transactions w address sigs s1 of
                     (txs, s2) \<Rightarrow>
                       (solana_transaction (hst w) address signature txDetails (now s1) # txs, s2)))))"

definition getSolanaWalletData_try ::
  "world \<Rightarrow> string \<Rightarrow> runtime \<Rightarrow> (js_error + WalletData) \<times> runtime" where
  "getSolanaWalletData_try w address s =
     (if HELIUS_API_KEY w = [] then
        (Inr \<lparr>w_address = address, w_blockchain = Solana, w_balance = ''0'', w_balanceUsd = Num 0,
              w_tokens = [], w_transactions = []\<rparr>, s)
      else
        (case rateLimitedRequest (HeliusGetBalance address) (helius_getBalance w address) 0 s of
           (Inl error, s1) \<Rightarrow> (Inl error, s1)
         | (Inr None, s1) \<Rightarrow> (Inl TypeError, s1)
         | (Inr (Some balanceLamports), s1) \<Rightarrow>
             (case rateLimitedRequest (HeliusGetTokenAccountsByOwner address)
                     (helius_getTokenAccountsByOwner w address) 0 s1 of
                (Inl error, s2) \<Rightarrow> (Inl error, s2)
              | (Inr None, s2) \<Rightarrow> (Inl TypeError, s2)
              | (Inr (Some accounts), s2) \<Rightarrow>
                  (case solana_tokens w (case accounts of None \<Rightarrow> [] | Some l \<Rightarrow> l) s2 of
                     (Inl error, s3) \<Rightarrow> (Inl error, s3)
                   | (Inr tokens, s3) \<Rightarrow>
                       (case rateLimitedRequest (HeliusGetSignaturesForAddress address 5)
                               (helius_getSignaturesForAddress w address 5) 0 s3 of
                          (Inl error, s4) \<Rightarrow> (Inl error, s4)
                        | (Inr result, s4) \<Rightarrow>
                            (case solana_transactions w address
                                    (take 5 (case result of None \<Rightarrow> [] | Some l \<Rightarrow> l)) s4 of
                               (transactions, s5) \<Rightarrow>
                                 (case native_price w ''solana'' s5 of
                                    (solPrice, s6) \<Rightarrow>
                                      (Inr \<lparr>w_address = address,
                                            w_blockchain = Solana,
                                            w_balance =
                                              js_toString (hst w)
                                                (js_div (Num balanceLamports) (Num (10 ^ 9))),
                                            w_balanceUsd =
                                              js_mul (js_div (Num balanceLamports) (Num (10 ^ 9)))
                                                solPrice,
                                            w_tokens = tokens,
                                            w_transactions = transactions\<rparr>, s6))))))))"

definition getSolanaWalletData ::
  "world \<Rightarrow> string \<Rightarrow> runtime \<Rightarrow> (string + WalletData) \<times> runtime" where
  "getSolanaWalletData w address s =
     (case getSolanaWalletData_try w address s of
        (Inl error, s') \<Rightarrow> (Inl ''Failed to fetch Solana wallet data'', s')
      | (Inr data, s') \<Rightarrow> (Inr data, s'))"

section \<open>The aggregator\<close>

definition getWalletData ::
  "world \<Rightarrow> string \<Rightarrow> runtime \<Rightarrow> (string + WalletData) \<times> runtime" where
  "getWalletData w address s =
     (case detectBlockchain address of
        None \<Rightarrow> (Inl ''Invalid wallet address'', s)
      | Some Ethereum \<Rightarrow> getEthereumWalletData w address s
      | Some Solana \<Rightarrow> getSolanaWalletData w address s)"

section \<open>Routes of the requests of a run\<close>

text \<open>
  \<open>routed P s s'\<close>: the run from \<open>s\<close> to \<open>s'\<close> has only added requests to the record
  of the requests sent, and each request it added satisfies \<open>P\<close>.
\<close>

definition routed :: "(route \<times> request \<Rightarrow> bool) \<Rightarrow> runtime \<Rightarrow> runtime \<Rightarrow> bool" where
  "routed P s s' =
     (take (length (sent s)) (sent s') = sent s \<and> list_all P (drop (length (sent s)) (sent s')))"

definition is_price_request :: "request \<Rightarrow> bool" where
  "is_price_request r =
     (case r of CoinGeckoTokenPrice platform address \<Rightarrow> True | CoinGeckoSimplePrice coin \<Rightarrow> True
      | _ \<Rightarrow> False)"

definition is_ethereum_request :: "request \<Rightarrow> bool" where
  "is_ethereum_request r =
     (case r of EthGetBalance a \<Rightarrow> True | AlchemyGetTokenBalances a \<Rightarrow> True
      | AlchemyGetTokenMetadata c \<Rightarrow> True | EtherscanTxList a \<Rightarrow> True | _ \<Rightarrow> False)"

text \<open>
  The routes of the Ethereum adapter: the price lookups go through the dispatcher, the
  requests to the node and to the explorer are sent directly.
\<close>

definition ethereum_route :: "route \<times> request \<Rightarrow> bool" where
  "ethereum_route x =
     (case x of (via, r) \<Rightarrow>
        (via = Dispatched \<and> is_price_request r) \<or> (via = Direct \<and> is_ethereum_request r))"

definition dispatched :: "route \<times> request \<Rightarrow> bool" where
  "dispatched x = (fst x = Dispatched)"

section \<open>Peers that always answer, peers that always reject\<close>



section \<open>The wallet directory (wallet/walletUtils.ts and its adapters)\<close>

definition formatBalance :: "host \<Rightarrow> string \<Rightarrow> nat \<Rightarrow> string" where
  "formatBalance h balance decimals =
     (if balance = [] then ''0''
      else
        (let balanceNum = js_div (parseFloat balance) (Num (10 ^ decimals))
         in if js_lt balanceNum (Num (1 / 1000)) then toExponential h balanceNum 4
            else if js_lt balanceNum (Num 1) then toFixed h balanceNum 6
            else if js_lt balanceNum (Num 1000) then toFixed h balanceNum 4
            else toLocaleString h balanceNum 2))"

text \<open>
  wallet/ethereumService.ts: \<^verbatim>\<open>formatBalance(parseInt(balanceHex, 16).toString(), 18)\<close>.
\<close>

definition ethereumService_nativeBalance :: "host \<Rightarrow> string \<Rightarrow> string" where
  "ethereumService_nativeBalance h balanceHex =
     formatBalance h (js_toString h (parseInt balanceHex (Some 16))) 18"

text \<open>
  wallet/solanaService.ts: \<^verbatim>\<open>formatBalance(balanceLamports, 9)\<close>, called with the
  number of the response: \<^verbatim>\<open>!balance\<close> holds for 0, and \<^verbatim>\<open>parseFloat\<close> reads the
  number's string.
\<close>

definition solanaService_nativeBalance :: "host \<Rightarrow> rat \<Rightarrow> string" where
  "solanaService_nativeBalance h balanceLamports =
     (if balanceLamports = 0 then ''0''
      else formatBalance h (js_toString h (Num balanceLamports)) 9)"

text \<open>The inline conversions of services/walletService.ts.\<close>

definition walletService_nativeBalanceEth :: "host \<Rightarrow> string \<Rightarrow> string" where
  "walletService_nativeBalanceEth h result =
     js_toString h (js_div (parseInt result (Some 16)) (Num (10 ^ 18)))"

definition walletService_nativeBalanceSol :: "host \<Rightarrow> rat \<Rightarrow> string" where
  "walletService_nativeBalanceSol h balanceLamports =
     js_toString h (js_div (Num balanceLamports) (Num (10 ^ 9)))"

text \<open>wallet/ethereumService.ts: the callback of \<^verbatim>\<open>txResponse.data.result.map\<close>.\<close>

definition ethereumService_transaction :: "host \<Rightarrow> string \<Rightarrow> etherscan_tx \<Rightarrow> Transaction" where
  "ethereumService_transaction h address tx =
     \<lparr>tx_hash = e_hash tx,
      tx_timestamp = parseInt (e_timeStamp tx) None,
      tx_from = e_from tx,
      tx_to = e_to tx,
      tx_value = formatBalance h (e_value tx) 18,
      tx_fee = formatBalance h
        (js_toString h (js_mul (parseInt (e_gasUsed tx) None) (parseInt (e_gasPrice tx) None))) 18,
      tx_status = (if e_isError tx = ''0'' then ''success'' else ''failed''),
      tx_type = (if toLowerCase (e_from tx) = toLowerCase address then ''send''
                 else if toLowerCase (e_to tx) = toLowerCase address then ''receive''
                 else ''other'')\<rparr>"




text \<open>
  wallet/index.ts: the aggregator of the wallet directory over its two adapters, which
  are parameters here; a rejection of an adapter is caught and returned as an error
  value.
\<close>

definition index_getWalletData ::
  "(string \<Rightarrow> 's \<Rightarrow> (string + 'd) \<times> 's) \<Rightarrow> (string \<Rightarrow> 's \<Rightarrow> (string + 'd) \<times> 's) \<Rightarrow>
   string \<Rightarrow> 's \<Rightarrow> (string + 'd) \<times> 's" where
  "index_getWalletData ethereumAdapter solanaAdapter address s =
     (case detectBlockchain address of
        Some Ethereum \<Rightarrow>
          (case ethereumAdapter address s of
             (Inl error, s') \<Rightarrow> (Inl ''Failed to fetch wallet data'', s')
           | (Inr data, s') \<Rightarrow> (Inr data, s'))
      | Some Solana \<Rightarrow>
          (case solanaAdapter address s of
             (Inl error, s') \<Rightarrow> (Inl ''Failed to fetch wallet data'', s')
           | (Inr data, s') \<Rightarrow> (Inr data, s'))
      | None \<Rightarrow> (Inl ''Unsupported blockchain or invalid address format'', s))"

section \<open>A sample world\<close>

text \<open>
  A world for the examples: an Ethereum wallet holding three tokens, where the price
  lookup of the second token is rejected, and a Solana wallet with one token account and
  two signatures, where the token list cannot be fetched and the details of the second
  signature are rejected. The amounts are whole units, so that every printed number is an
  integer and the host's formatting of fractions plays no role.
\<close>

definition eth_address :: string where
  "eth_address = ''0x52908400098527886E0F7030069857D2E4169EE7''"

definition sol_address :: string where
  "sol_address = ''4Nd1mBQtrMJVYVfKf2PJy9NZUZdTAsp7D4xWLs4gDB4T''"

definition sample_host :: host where
  "sample_host =
     \<lparr>fractionToString = (\<lambda>q. ''fraction''),
      toExponential = (\<lambda>x f. ''exponential''),
      toLocaleString = (\<lambda>x f. ''localized'')\<rparr>"

definition sample_listing :: "token_balance list" where
  "sample_listing =
     [\<lparr>contractAddress = ''0xA'', tokenBalance = ''0xde0b6b3a7640000''\<rparr>,
      \<lparr>contractAddress = ''0xB'', tokenBalance = ''0x1bc16d674ec80000''\<rparr>,
      \<lparr>contractAddress = ''0xC'', tokenBalance = ''0x29a2241af62c0000''\<rparr>]"

definition sample_metadata :: token_metadata where
  "sample_metadata =
     \<lparr>md_symbol = Some ''TOK'', md_name = Some ''Token'', md_decimals = Some 18, md_logo = None\<rparr>"

definition sample_etherscan_tx :: etherscan_tx where
  "sample_etherscan_tx =
     \<lparr>e_hash = ''0xh1'', e_timeStamp = ''1700000000'',
      e_from = ''0x1111111111111111111111111111111111111111'',
      e_to = ''0x2222222222222222222222222222222222222222'',
      e_value = ''1000000000000000000'', e_gasPrice = ''1000000000'',
      e_gasUsed = ''1000000000'', e_isError = ''0''\<rparr>"

definition sample_details :: tx_details where
  "sample_details =
     \<lparr>d_blockTime = Some 1700000000,
      d_meta = Some \<lparr>m_fee = Some 1000000000, m_err = False,
                     m_preBalances = Some [5000000000, 0],
                     m_postBalances = Some [3000000000, 1000000000]\<rparr>,
      d_accountKeys = Some [\<lparr>pubkey = sol_address, signer = True, writable = True\<rparr>,
                            \<lparr>pubkey = ''Recipient'', signer = False, writable = True\<rparr>]\<rparr>"

definition sample_world :: world where
  "sample_world =
     \<lparr>HELIUS_API_KEY = ''helius-key'',
      hst = sample_host,
      eth_getBalance = (\<lambda>a n. (20, Inr (Some ''0xde0b6b3a7640000''))),
      alchemy_getTokenBalances = (\<lambda>a n. (20, Inr (Some (Some sample_listing)))),
      alchemy_getTokenMetadata = (\<lambda>c n. (20, Inr (Some sample_metadata))),
      etherscan_txlist = (\<lambda>a n. (20, Inr (Some \<lparr>es_status = ''1'', es_message = Some ''OK'',
                                                   es_result = Some [sample_etherscan_tx]\<rparr>))),
      coingecko_token_price =
        (\<lambda>platform c n. if c = ''0xB'' then (20, Inl (AxiosError (Some 404)))
                         else (20, Inr (\<lambda>k. Some 3))),
      coingecko_simple_price = (\<lambda>coin n. (20, Inr (\<lambda>k. Some 2000))),
      helius_getBalance = (\<lambda>a n. (20, Inr (Some 1000000000))),
      helius_getTokenAccountsByOwner =
        (\<lambda>a n. (20, Inr (Some (Some [\<lparr>mint = ''MintA'', ta_decimals = 0,
                                        uiAmount = Some 5\<rparr>])))),
      solana_token_list = (\<lambda>n. (20, Inl (AxiosError None))),
      helius_getSignaturesForAddress = (\<lambda>a limit n. (20, Inr (Some [Some ''sig1'', Some ''sig2'', None]))),
      helius_getTransaction =
        (\<lambda>sg n. if sg = ''sig2'' then (20, Inl (AxiosError (Some 404)))
                 else (20, Inr (Some sample_details)))\<rparr>"

definition start :: runtime where
  "start = \<lparr>now = 1000000, lastRequestTime = 0, sent = [], late = (\<lambda>t. 0)\<rparr>"


section \<open>Properties of the classifier\<close>

lemma matches_single:
  "lo \<le> hi \<Longrightarrow>
   matches [Piece a lo hi] s = (lo \<le> length s \<and> length s \<le> hi \<and> list_all (atom_ok a) s)"
proof (induction s arbitrary: lo hi)
  case Nil
  then show ?case by (auto simp: matches.simps)
next
  case (Cons c cs)
  show ?case
  proof (cases "0 < lo")
    case True
    with Cons.prems have "lo - 1 \<le> hi - 1" by simp
    from Cons.IH[OF this] True Cons.prems show ?thesis
      by (subst matches.simps) auto
  next
    case False
    then have lo0: "lo = 0" by simp
    show ?thesis
    proof (cases "0 < hi")
      case True
      from Cons.IH[of 0 "hi - 1"] lo0 True show ?thesis
        by (subst matches.simps) (cases cs; auto simp: matches.simps)
    next
      case False
      with lo0 show ?thesis by (simp add: matches.simps)
    qed
  qed
qed

lemma matches_literal:
  "matches (Piece (Lit l) 1 1 # ps) s = (\<exists>cs. s = l # cs \<and> matches ps cs)"
proof (cases s)
  case Nil
  then show ?thesis by (simp add: matches.simps)
next
  case (Cons c cs)
  have "matches (Piece (Lit l) 0 0 # ps) cs = matches ps cs"
    by (subst matches.simps) simp
  then show ?thesis using Cons by (subst matches.simps) auto
qed

lemma mem_set_of_char: "(c \<in> set s) = ((of_char c :: nat) \<in> set (map of_char s))"
  by (auto simp: image_iff)

lemma hex_codes: "map of_char hex_digits = [48..<58] @ [97..<103] @ [65..<(71::nat)]"
  unfolding hex_digits_def by (simp add: upt_rec_numeral)

lemma hex_class_iff: "atom_ok hex_class c = (c \<in> set hex_digits)"
proof -
  have "(c \<in> set hex_digits) = ((of_char c :: nat) \<in> set (map of_char hex_digits))"
    by (rule mem_set_of_char)
  also have "\<dots> = atom_ok hex_class c"
    unfolding hex_codes hex_class_def by (simp del: of_char_eq_iff upt_rec_numeral) arith
  finally show ?thesis by simp
qed

lemma alnum_codes: "map of_char alphanumerics = [48..<58] @ [65..<91] @ [97..<(123::nat)]"
  unfolding alphanumerics_def by (simp add: upt_rec_numeral)

lemma base58_class_iff: "atom_ok base58_class c = (c \<in> base58_alphabet)"
proof -
  have "(c \<in> base58_alphabet) = (c \<in> set alphanumerics \<and> c \<notin> set ''0OIl'')"
    by (auto simp: base58_alphabet_def)
  also have "\<dots> = ((of_char c :: nat) \<in> set (map of_char alphanumerics) \<and>
                   (of_char c :: nat) \<notin> set (map of_char ''0OIl''))"
    using mem_set_of_char by metis
  also have "\<dots> = atom_ok base58_class c"
    unfolding alnum_codes base58_class_def by (simp del: of_char_eq_iff upt_rec_numeral) arith
  finally show ?thesis by simp
qed

lemma matches_ethereum: "matches ethereum_regex a = ethereum_format a"
proof -
  have "matches ethereum_regex a
        = (\<exists>cs. a = CHR ''0'' # CHR ''x'' # cs \<and> length cs = 40 \<and> list_all (atom_ok hex_class) cs)"
    unfolding ethereum_regex_def matches_literal by (auto simp: matches_single)
  also have "\<dots> = ethereum_format a"
  proof (cases a)
    case Nil
    then show ?thesis by (simp add: ethereum_format_def)
  next
    case (Cons x xs)
    then show ?thesis
      by (cases xs) (auto simp: ethereum_format_def hex_class_iff list_all_iff)
  qed
  finally show ?thesis .
qed

lemma matches_solana: "matches solana_regex a = solana_format a"
  by (auto simp: solana_regex_def matches_single solana_format_def base58_class_iff list_all_iff)

lemma ethereum_not_solana: "ethereum_format a \<Longrightarrow> \<not> solana_format a"
proof
  assume e: "ethereum_format a" and s: "solana_format a"
  from e have "take 2 a = ''0x''" by (simp add: ethereum_format_def)
  then have "CHR ''0'' \<in> set a" by (cases a) auto
  with s show False by (auto simp: solana_format_def base58_alphabet_def)
qed

lemma detectBlockchain_cases:
  "detectBlockchain a =
     (if ethereum_format a then Some Ethereum else if solana_format a then Some Solana else None)"
  by (simp add: detectBlockchain_def matches_ethereum matches_solana)

text \<open>
  Claim C5. The classifier is a function of the address string alone; it answers
  Ethereum exactly for \<^verbatim>\<open>0x\<close> followed by 40 hexadecimal characters, Solana exactly for
  32 to 44 characters of the base58 alphabet (the alphanumerics without 0, O, I and l)
  that are not an Ethereum match, and unrecognised for every other string.
\<close>

theorem detectBlockchain_classifies:
  "(detectBlockchain a = Some Ethereum) = ethereum_format a \<and>
   (detectBlockchain a = Some Solana) = (solana_format a \<and> \<not> ethereum_format a) \<and>
   (detectBlockchain a = None) = (\<not> ethereum_format a \<and> \<not> solana_format a)"
  by (simp add: detectBlockchain_def matches_ethereum matches_solana)

theorem detectBlockchain_classifies_witness:
  "detectBlockchain ''0x52908400098527886E0F7030069857D2E4169EE7'' = Some Ethereum \<and>
   detectBlockchain ''4Nd1mBQtrMJVYVfKf2PJy9NZUZdTAsp7D4xWLs4gDB4T'' = Some Solana \<and>
   detectBlockchain ''not-an-address'' = None"
proof -
  have e: "ethereum_format ''0x52908400098527886E0F7030069857D2E4169EE7''"
    by (simp add: ethereum_format_def hex_digits_def)
  have s: "solana_format ''4Nd1mBQtrMJVYVfKf2PJy9NZUZdTAsp7D4xWLs4gDB4T''"
    by (simp add: solana_format_def base58_alphabet_def alphanumerics_def)
  have s': "\<not> ethereum_format ''4Nd1mBQtrMJVYVfKf2PJy9NZUZdTAsp7D4xWLs4gDB4T''"
    by (simp add: ethereum_format_def)
  have n: "\<not> ethereum_format ''not-an-address''" "\<not> solana_format ''not-an-address''"
    by (simp_all add: ethereum_format_def solana_format_def)
  show ?thesis
    using detectBlockchain_classifies[of "''0x52908400098527886E0F7030069857D2E4169EE7''"]
      detectBlockchain_classifies[of "''4Nd1mBQtrMJVYVfKf2PJy9NZUZdTAsp7D4xWLs4gDB4T''"]
      detectBlockchain_classifies[of "''not-an-address''"] e s s' n
    by simp
qed

section \<open>Properties of the dispatcher\<close>

lemma pace_now: "now s \<le> now (pace s) \<and> lastRequestTime s + MIN_DELAY_MS \<le> now (pace s)"
  by (simp add: pace_def sleep_def Let_def)

lemma pace_punctual:
  "late s = (\<lambda>t. 0) \<Longrightarrow> now (pace s) = max (now s) (lastRequestTime s + MIN_DELAY_MS)"
  by (simp add: pace_def sleep_def Let_def)


lemma pace_sent: "sent (pace s) = sent s"
  by (simp add: pace_def sleep_def Let_def)

lemma sleep_fields:
  "sent (sleep ms s) = sent s" "lastRequestTime (sleep ms s) = lastRequestTime s"
  "now s \<le> now (sleep ms s)" "now s + ms \<le> now (sleep ms s)"
  by (simp_all add: sleep_def Let_def)

lemma axios_fields:
  assumes "axios via c p s = (r, s')"
  shows "now s \<le> now s'" and "lastRequestTime s' = lastRequestTime s"
    and "sent s' = sent s @ [(via, c)]" and "r = snd (p (length (sent s)))"
  using assms by (auto simp: axios_def split: prod.splits)

lemma rateLimitedRequest_step:
  assumes "axios Dispatched config peer (pace s) = (out, s1)"
  shows "rateLimitedRequest config peer retries s =
           (case out of
              Inr response \<Rightarrow> (Inr response, s1)
            | Inl error \<Rightarrow>
                (if retryable error \<and> retries < MAX_RETRIES
                 then rateLimitedRequest config peer (retries + 1) (sleep (2 ^ retries * 1000) s1)
                 else (Inl error, s1)))"
  using assms by (subst rateLimitedRequest.simps) (simp split: sum.splits)




lemma rateLimitedRequest_run:
  assumes "\<forall>i<j. \<exists>l e. peer (length (sent s) + i) = (l, Inl e) \<and> retryable e"
    and "retries + j \<le> MAX_RETRIES"
    and "snd (peer (length (sent s) + j)) = out"
    and "retries + j = MAX_RETRIES \<or> (\<forall>e. out = Inl e \<longrightarrow> \<not> retryable e)"
    and "rateLimitedRequest config peer retries s = (r, s')"
  shows "r = out \<and> sent s' = sent s @ replicate (Suc j) (Dispatched, config) \<and>
         now s + (\<Sum>i<j. 2 ^ (retries + i) * 1000) \<le> now s'"
  using assms
proof (induction j arbitrary: retries s)
  case 0
  obtain o1 s1 where ax: "axios Dispatched config peer (pace s) = (o1, s1)"
    by (cases "axios Dispatched config peer (pace s)")
  note f = axios_fields[OF ax]
  from f(4) "0.prems"(3) have o1: "o1 = out" by (simp add: pace_sent)
  have "rateLimitedRequest config peer retries s = (out, s1)"
  proof (cases out)
    case (Inr v)
    with rateLimitedRequest_step[OF ax, of retries] o1 show ?thesis by simp
  next
    case (Inl e)
    with "0.prems"(4) have "\<not> (retryable e \<and> retries < MAX_RETRIES)" by auto
    with rateLimitedRequest_step[OF ax, of retries] o1 Inl show ?thesis by simp
  qed
  with "0.prems"(5) have "r = out" "s' = s1" by simp_all
  with f pace_now[of s] show ?case by (simp add: pace_sent)
next
  case (Suc j)
  obtain o1 s1 where ax: "axios Dispatched config peer (pace s) = (o1, s1)"
    by (cases "axios Dispatched config peer (pace s)")
  note f = axios_fields[OF ax]
  from Suc.prems(1) obtain l e where pe: "peer (length (sent s) + 0) = (l, Inl e)" "retryable e"
    by blast
  with f(4) have o1: "o1 = Inl e" by (simp add: pace_sent)
  let ?s2 = "sleep (2 ^ retries * 1000) s1"
  from Suc.prems(2) have lt: "retries < MAX_RETRIES" by simp
  with rateLimitedRequest_step[OF ax, of retries] o1 pe(2) Suc.prems(5)
  have rec: "rateLimitedRequest config peer (retries + 1) ?s2 = (r, s')" by simp
  have sent2: "sent ?s2 = sent s @ [(Dispatched, config)]"
    using f(3) by (simp add: sleep_fields pace_sent)
  have h1: "\<forall>i<j. \<exists>l e. peer (length (sent ?s2) + i) = (l, Inl e) \<and> retryable e"
  proof (intro allI impI)
    fix i assume "i < j"
    then have "Suc i < Suc j" by simp
    with Suc.prems(1) obtain l e where "peer (length (sent s) + Suc i) = (l, Inl e) \<and> retryable e"
      by blast
    then show "\<exists>l e. peer (length (sent ?s2) + i) = (l, Inl e) \<and> retryable e"
      by (auto simp: sent2)
  qed
  have h2: "retries + 1 + j \<le> MAX_RETRIES" using Suc.prems(2) by simp
  have h3: "snd (peer (length (sent ?s2) + j)) = out" using Suc.prems(3) by (simp add: sent2)
  have h4: "retries + 1 + j = MAX_RETRIES \<or> (\<forall>e. out = Inl e \<longrightarrow> \<not> retryable e)"
    using Suc.prems(4) by simp
  from Suc.IH[OF h1 h2 h3 h4 rec]
  have ih: "r = out" "sent s' = sent ?s2 @ replicate (Suc j) (Dispatched, config)"
    "now ?s2 + (\<Sum>i<j. 2 ^ (retries + 1 + i) * 1000) \<le> now s'" by simp_all
  have t: "now s + 2 ^ retries * 1000 \<le> now ?s2"
    using f(1) pace_now[of s] sleep_fields(4)[of s1 "2 ^ retries * 1000"] by simp
  have sum: "(\<Sum>i<Suc j. 2 ^ (retries + i) * 1000) =
             (2 ^ retries * 1000 + (\<Sum>i<j. 2 ^ (retries + 1 + i) * 1000) :: int)"
    by (simp add: sum.lessThan_Suc_shift del: sum.lessThan_Suc)
  from ih t show ?case unfolding sum by (simp add: sent2 replicate_append_same)
qed

lemma backoff_total: "(\<Sum>i<j. 2 ^ (0 + i) * 1000) = ((2 ^ j - 1) * 1000 :: int)"
proof (induction j)
  case 0
  show ?case by simp
next
  case (Suc j)
  then show ?case by (simp add: algebra_simps)
qed

lemma retryable_status:
  "retryable e = (\<exists>st. e = AxiosError (Some st) \<and> (st = 429 \<or> (500 \<le> st \<and> st < 600)))"
  by (auto simp: retryable_def split: js_error.splits option.splits)

lemma rateLimitedRequest_outcome:
  assumes "j \<le> MAX_RETRIES"
    and "\<forall>i<j. \<exists>l st. peer (length (sent s) + i) = (l, Inl (AxiosError (Some st))) \<and>
                       (st = 429 \<or> (500 \<le> st \<and> st < 600))"
    and "snd (peer (length (sent s) + j)) = out"
    and "j = MAX_RETRIES \<or>
         (\<forall>st. out = Inl (AxiosError (Some st)) \<longrightarrow> st \<noteq> 429 \<and> \<not> (500 \<le> st \<and> st < 600))"
  shows "fst (rateLimitedRequest config peer 0 s) = out \<and>
         sent (snd (rateLimitedRequest config peer 0 s)) =
           sent s @ replicate (Suc j) (Dispatched, config) \<and>
         now s + (2 ^ j - 1) * 1000 \<le> now (snd (rateLimitedRequest config peer 0 s))"
proof -
  obtain r s' where rl: "rateLimitedRequest config peer 0 s = (r, s')"
    by (cases "rateLimitedRequest config peer 0 s")
  have h1: "\<forall>i<j. \<exists>l e. peer (length (sent s) + i) = (l, Inl e) \<and> retryable e"
    using assms(2) by (auto simp: retryable_status)
  have h4: "0 + j = MAX_RETRIES \<or> (\<forall>e. out = Inl e \<longrightarrow> \<not> retryable e)"
    using assms(4) by (auto simp: retryable_status)
  from rateLimitedRequest_run[OF h1 _ assms(3) h4 rl] assms(1)
  show ?thesis unfolding backoff_total rl by simp
qed



text \<open>Four 429 responses: the call fails with the last of them after four requests.\<close>

lemma rateLimitedRequest_exhausted:
  assumes "\<forall>n. \<exists>l. peer n = (l, Inl (AxiosError (Some 429)))"
  shows "fst (rateLimitedRequest config peer 0 s) = Inl (AxiosError (Some 429)) \<and>
         sent (snd (rateLimitedRequest config peer 0 s)) =
           sent s @ replicate 4 (Dispatched, config) \<and>
         now s + 7000 \<le> now (snd (rateLimitedRequest config peer 0 s))"
proof -
  have h1: "(3::nat) \<le> MAX_RETRIES" by (simp add: MAX_RETRIES_def)
  have h2: "\<forall>i<3. \<exists>l st. peer (length (sent s) + i) = (l, Inl (AxiosError (Some st))) \<and>
                         (st = 429 \<or> (500 \<le> st \<and> st < 600))"
    using assms by (metis prod.inject)
  have h3: "snd (peer (length (sent s) + 3)) = Inl (AxiosError (Some 429))"
    using assms by (metis snd_conv)
  have h4: "3 = MAX_RETRIES \<or>
            (\<forall>st. (Inl (AxiosError (Some 429)) :: js_error + 'a) = Inl (AxiosError (Some st)) \<longrightarrow>
                  st \<noteq> 429 \<and> \<not> (500 \<le> st \<and> st < 600))" by (simp add: MAX_RETRIES_def)
  from rateLimitedRequest_outcome[OF h1 h2 h3 h4, of config]
  show ?thesis by simp
qed



section \<open>Evaluating numbers\<close>

lemma show_digit: "n < 10 \<Longrightarrow> show_nat n = [digit_char n]"
  by (subst show_nat.simps) simp

lemma show_step: "10 \<le> n \<Longrightarrow> show_nat n = show_nat (n div 10) @ [digit_char (n mod 10)]"
  by (subst show_nat.simps) simp

lemma floor_rat_numeral: "\<lfloor>numeral a / numeral b :: rat\<rfloor> = numeral a div numeral b"
  using floor_divide_of_int_eq[of "numeral a" "numeral b", where ?'a = rat] by simp

section \<open>Properties of the adapters\<close>

lemma rateLimitedRequest_from_peer: "\<exists>n. fst (rateLimitedRequest c p r s) = snd (p n)"
proof (induction c p r s rule: rateLimitedRequest.induct)
  case (1 config peer retries s)
  obtain o1 s1 where ax: "axios Dispatched config peer (pace s) = (o1, s1)"
    by (cases "axios Dispatched config peer (pace s)")
  note step = rateLimitedRequest_step[OF ax, of retries]
  from axios_fields(4)[OF ax] have o1: "\<exists>n. o1 = snd (peer n)" by blast
  show ?case
  proof (cases o1)
    case (Inr v)
    with step o1 show ?thesis by auto
  next
    case (Inl e)
    show ?thesis
    proof (cases "retryable e \<and> retries < MAX_RETRIES")
      case True
      from "1.IH"[OF ax[symmetric] Inl True] step Inl True show ?thesis by simp
    next
      case False
      with step Inl o1 show ?thesis by auto
    qed
  qed
qed

lemma rateLimitedRequest_always:
  assumes "\<forall>n. P (snd (p n))"
  shows "P (fst (rateLimitedRequest c p r s))"
  using rateLimitedRequest_from_peer[of c p r s] assms by auto








lemmas run_simps =
  axios_def pace_def sleep_def Let_def MIN_DELAY_MS_def MAX_RETRIES_def retryable_def
  rateLimitedRequest.simps sample_world_def start_def

lemmas adapter_simps =
  getSolanaWalletData_def getSolanaWalletData_try_def solana_token_def solana_token_info_def
  getEthereumWalletData_def getEthereumWalletData_try_def ethereum_token_def
  ethereum_transactions_def token_price_def native_price_def toLowerCase_def or_zero_def
  or_string_def decimals_or_def

lemmas number_simps =
  js_toString_def js_div_def js_mul_def is_integer_def show_digit show_step digit_char_def
  floor_rat_numeral parseInt_def strip_sign_def is_space_def has_hex_prefix_def digit_val_def digits_value_def

lemma sample_addresses:
  "ethereum_format eth_address" "\<not> solana_format eth_address"
  "solana_format sol_address" "\<not> ethereum_format sol_address"
  "\<not> ethereum_format ''bad''" "\<not> solana_format ''bad''"
  by (simp_all add: eth_address_def sol_address_def ethereum_format_def solana_format_def
      hex_digits_def base58_alphabet_def alphanumerics_def)

text \<open>
  Claim C2. For an address that matches neither format, \<^verbatim>\<open>getWalletData\<close> fails with
  the invalid-address error and the state is untouched: no request is sent, the clock
  and \<^verbatim>\<open>lastRequestTime\<close> do not move. The aggregator of the wallet directory returns
  its error value in the same way, whatever its adapters are.
\<close>

theorem getWalletData_invalid_address:
  assumes "\<not> ethereum_format address" and "\<not> solana_format address"
  shows "getWalletData w address s = (Inl ''Invalid wallet address'', s) \<and>
         sent (snd (getWalletData w address s)) = sent s \<and>
         index_getWalletData ethereumAdapter solanaAdapter address t =
           (Inl ''Unsupported blockchain or invalid address format'', t)"
  using assms by (simp add: getWalletData_def index_getWalletData_def detectBlockchain_cases)

theorem getWalletData_invalid_address_witness:
  "getWalletData sample_world ''bad'' start = (Inl ''Invalid wallet address'', start) \<and>
   sent (snd (getWalletData sample_world ''bad'' start)) = [] \<and>
   index_getWalletData (getEthereumWalletData sample_world) (getSolanaWalletData sample_world)
     ''bad'' start = (Inl ''Unsupported blockchain or invalid address format'', start)"
  using getWalletData_invalid_address[OF sample_addresses(5,6), where w = sample_world
      and s = start and t = start and ethereumAdapter = "getEthereumWalletData sample_world"
      and solanaAdapter = "getSolanaWalletData sample_world"]
  by (simp add: start_def)

text \<open>
  Claim C9. With an empty \<^verbatim>\<open>HELIUS_API_KEY\<close> the Solana adapter, and the aggregator on
  every Solana address, return the snapshot with balance \<^verbatim>\<open>'0'\<close>, value 0 and no tokens
  or transactions, and leave the state untouched (no request is sent). A configured
  adapter returns the very same snapshot for a wallet whose balance is 0 and that has no
  token account and no signature.
\<close>

theorem getSolanaWalletData_without_key:
  assumes "HELIUS_API_KEY w = []"
  shows "getSolanaWalletData w address s =
           (Inr \<lparr>w_address = address, w_blockchain = Solana, w_balance = ''0'',
                 w_balanceUsd = Num 0, w_tokens = [], w_transactions = []\<rparr>, s) \<and>
         (solana_format address \<longrightarrow>
            getWalletData w address s = getSolanaWalletData w address s) \<and>
         (HELIUS_API_KEY w' \<noteq> [] \<and>
          (\<forall>n. snd (helius_getBalance w' address n) = Inr (Some 0)) \<and>
          (\<forall>n. snd (helius_getTokenAccountsByOwner w' address n) = Inr (Some (Some []))) \<and>
          (\<forall>n. snd (helius_getSignaturesForAddress w' address 5 n) = Inr (Some [])) \<longrightarrow>
            fst (getSolanaWalletData w' address t) = fst (getSolanaWalletData w address s))"
proof -
  let ?empty = "\<lparr>w_address = address, w_blockchain = Solana, w_balance = ''0'',
                 w_balanceUsd = Num 0, w_tokens = [], w_transactions = []\<rparr>"
  have a: "getSolanaWalletData w address s = (Inr ?empty, s)"
    using assms by (simp add: getSolanaWalletData_def getSolanaWalletData_try_def)
  have b: "getWalletData w address s = getSolanaWalletData w address s" if "solana_format address"
  proof -
    from that ethereum_not_solana have "\<not> ethereum_format address" by blast
    with that show ?thesis by (simp add: getWalletData_def detectBlockchain_cases)
  qed
  have c: "fst (getSolanaWalletData w' address t) = Inr ?empty"
    if key: "HELIUS_API_KEY w' \<noteq> []"
      and bal: "\<forall>n. snd (helius_getBalance w' address n) = Inr (Some 0)"
      and acc: "\<forall>n. snd (helius_getTokenAccountsByOwner w' address n) = Inr (Some (Some []))"
      and sgs: "\<forall>n. snd (helius_getSignaturesForAddress w' address 5 n) = Inr (Some [])"
  proof -
    obtain r1 s1 where r1: "rateLimitedRequest (HeliusGetBalance address)
        (helius_getBalance w' address) 0 t = (r1, s1)" by force
    from rateLimitedRequest_always[where P = "\<lambda>x. x = Inr (Some 0)", OF bal] r1
    have v1: "r1 = Inr (Some 0)" by (metis fst_conv)
    obtain r2 s2 where r2: "rateLimitedRequest (HeliusGetTokenAccountsByOwner address)
        (helius_getTokenAccountsByOwner w' address) 0 s1 = (r2, s2)" by force
    from rateLimitedRequest_always[where P = "\<lambda>x. x = Inr (Some (Some []))", OF acc] r2
    have v2: "r2 = Inr (Some (Some []))" by (metis fst_conv)
    obtain r3 s3 where r3: "rateLimitedRequest (HeliusGetSignaturesForAddress address 5)
        (helius_getSignaturesForAddress w' address 5) 0 s2 = (r3, s3)" by force
    from rateLimitedRequest_always[where P = "\<lambda>x. x = Inr (Some [])", OF sgs] r3
    have v3: "r3 = Inr (Some [])" by (metis fst_conv)
    obtain p s4 where p: "native_price w' ''solana'' s3 = (p, s4)" by force
    then obtain q where q: "p = Num q"
      by (auto simp: native_price_def or_zero_def split: prod.splits sum.splits option.splits)
    have zero: "js_toString (hst w') (js_div (Num 0) (Num (10 ^ 9))) = ''0''"
      by (simp add: js_toString_def js_div_def is_integer_def show_digit digit_char_def)
    show ?thesis
      using key r1 v1 r2 v2 r3 v3 p q zero
      by (simp add: getSolanaWalletData_def getSolanaWalletData_try_def js_mul_def js_div_def)
  qed
  from a b c show ?thesis by simp
qed

theorem getSolanaWalletData_without_key_witness:
  "getWalletData (sample_world\<lparr>HELIUS_API_KEY := []\<rparr>) sol_address start =
     (Inr \<lparr>w_address = sol_address, w_blockchain = Solana, w_balance = ''0'',
           w_balanceUsd = Num 0, w_tokens = [], w_transactions = []\<rparr>, start) \<and>
   sent start = []"
  using getSolanaWalletData_without_key[of "sample_world\<lparr>HELIUS_API_KEY := []\<rparr>"
      sol_address start sample_world start] sample_addresses(3)
  by (simp add: start_def)



section \<open>Transactions of the Ethereum adapters\<close>

lemma ethereumService_transaction_type:
  "tx_type (ethereumService_transaction h address tx) =
     (if toLowerCase (e_from tx) = toLowerCase address then ''send''
      else if toLowerCase (e_to tx) = toLowerCase address then ''receive''
      else ''other'') \<and>
   (tx_status (ethereumService_transaction h address tx) = ''success'') = (e_isError tx = ''0'') \<and>
   (tx_status (ethereumService_transaction h address tx) = ''failed'') = (e_isError tx \<noteq> ''0'')"
  by (simp add: ethereumService_transaction_def)

lemma ethereum_transaction_type:
  "tx_type (ethereum_transaction h address tx) =
     (if toLowerCase (e_from tx) = toLowerCase address then ''send'' else ''receive'') \<and>
   (tx_status (ethereum_transaction h address tx) = ''success'') = (e_isError tx = ''0'') \<and>
   (tx_status (ethereum_transaction h address tx) = ''failed'') = (e_isError tx \<noteq> ''0'') \<and>
   tx_fee (ethereum_transaction h address tx) =
     js_toString h (js_div (js_mul (parseInt (e_gasPrice tx) None) (parseInt (e_gasUsed tx) None))
                      (Num (10 ^ 18)))"
  by (simp add: ethereum_transaction_def)

text \<open>
  Claim C7. The adapter of the wallet directory types a transaction as the claim says
  (lemma \<open>ethereumService_transaction_type\<close>). The adapter of services/walletService.ts
  has no third case: a transaction that the queried address neither sent nor received
  is typed \<^verbatim>\<open>'receive'\<close>, where the claim and the other adapter say \<^verbatim>\<open>'other'\<close>.
\<close>

theorem ethereum_transaction_never_other:
  "toLowerCase (e_from sample_etherscan_tx) \<noteq> toLowerCase eth_address \<and>
   toLowerCase (e_to sample_etherscan_tx) \<noteq> toLowerCase eth_address \<and>
   tx_type (ethereum_transaction h eth_address sample_etherscan_tx) = ''receive'' \<and>
   tx_type (ethereumService_transaction h eth_address sample_etherscan_tx) = ''other''"
  by (simp add: ethereum_transaction_def ethereumService_transaction_def sample_etherscan_tx_def
      eth_address_def toLowerCase_def)

section \<open>Conversion of native units\<close>

lemma parse_wei: "parseInt ''0xde0b6b3a7640000'' (Some 16) = Num 1000000000000000000"
  by (simp add: parseInt_def strip_sign_def is_space_def has_hex_prefix_def digit_val_def
      digits_value_def)

lemma show_one: "show_nat (Suc 0) = ''1''"
  by (simp add: show_digit digit_char_def)

lemma toString_one: "js_toString h (Num 1) = ''1''"
  by (simp add: js_toString_def is_integer_def show_one)

lemma toString_wei: "js_toString h (Num 1000000000000000000) = ''1000000000000000000''"
  by (simp add: js_toString_def is_integer_def show_digit show_step digit_char_def)

lemma toString_lamports: "js_toString h (Num 1000000000) = ''1000000000''"
  by (simp add: js_toString_def is_integer_def show_digit show_step digit_char_def)

lemma parseFloat_wei: "parseFloat ''1000000000000000000'' = Num 1000000000000000000"
  by (simp add: parseFloat_def strip_sign_def is_space_def is_digit_def decimal_value_def
      digit_val_def digits_value_def exponent_part_def)

lemma parseFloat_lamports: "parseFloat ''1000000000'' = Num 1000000000"
  by (simp add: parseFloat_def strip_sign_def is_space_def is_digit_def decimal_value_def
      digit_val_def digits_value_def exponent_part_def)

lemma show_10000: "show_nat 10000 = ''10000''"
  by (simp add: show_digit show_step digit_char_def)

lemma toFixed_one: "toFixed h (Num 1) 4 = ''1.0000''"
  by (simp add: toFixed_def floor_rat_numeral show_10000)

lemma formatBalance_whole_unit:
  "formatBalance h ''1000000000000000000'' 18 = ''1.0000''"
  "formatBalance h ''1000000000'' 9 = ''1.0000''"
  by (simp_all add: formatBalance_def parseFloat_wei parseFloat_lamports js_div_def js_lt_def
      toFixed_one)

text \<open>
  Claim C8, as the specification states it, fails for \<^verbatim>\<open>formatBalance\<close>: one whole unit
  is printed with four decimals.
\<close>

theorem formatBalance_whole_unit_not_1:
  "formatBalance sample_host ''1000000000000000000'' 18 \<noteq> ''1''"
  by (simp add: formatBalance_whole_unit)

text \<open>
  Claim C8, amended. The inline conversions of services/walletService.ts print one whole
  unit as \<^verbatim>\<open>1\<close>: the hexadecimal amount \<^verbatim>\<open>0xde0b6b3a7640000\<close> of wei, and 1000000000
  lamports. \<^verbatim>\<open>formatBalance\<close> of the wallet directory, and the two adapters that call
  it, print the same amounts as \<^verbatim>\<open>1.0000\<close>, since it prints an amount from 1 up to 1000
  with four decimals. All the numbers involved are exact in binary64.
\<close>

theorem native_unit_conversion:
  "walletService_nativeBalanceEth h ''0xde0b6b3a7640000'' = ''1'' \<and>
   walletService_nativeBalanceSol h 1000000000 = ''1'' \<and>
   formatBalance h ''1000000000000000000'' 18 = ''1.0000'' \<and>
   formatBalance h ''1000000000'' 9 = ''1.0000'' \<and>
   ethereumService_nativeBalance h ''0xde0b6b3a7640000'' = ''1.0000'' \<and>
   solanaService_nativeBalance h 1000000000 = ''1.0000''"
  by (simp add: walletService_nativeBalanceEth_def walletService_nativeBalanceSol_def
      ethereumService_nativeBalance_def solanaService_nativeBalance_def parse_wei js_div_def
      toString_one toString_wei toString_lamports formatBalance_whole_unit)

section \<open>Which requests go through the dispatcher\<close>

lemma routed_refl: "routed P s s"
  by (simp add: routed_def)

lemma routed_append: "routed P s s' = (\<exists>new. sent s' = sent s @ new \<and> list_all P new)"
  unfolding routed_def by (metis append_eq_conv_conj append_take_drop_id)

lemma routed_trans: "routed P s s1 \<Longrightarrow> routed P s1 s2 \<Longrightarrow> routed P s s2"
  unfolding routed_append by auto

lemma routed_axios:
  assumes "axios via c p s = (r, s')" and "P (via, c)"
  shows "routed P s s'"
  using axios_fields(3)[OF assms(1)] assms(2) by (simp add: routed_append)

lemma routed_rateLimitedRequest:
  "rateLimitedRequest c p n s = (r, s') \<Longrightarrow> P (Dispatched, c) \<Longrightarrow> routed P s s'"
proof (induction c p n s arbitrary: r s' rule: rateLimitedRequest.induct)
  case (1 config peer retries s)
  obtain o1 s1 where ax: "axios Dispatched config peer (pace s) = (o1, s1)"
    by (cases "axios Dispatched config peer (pace s)")
  note step = rateLimitedRequest_step[OF ax, of retries]
  have r1: "routed P s s1"
    using axios_fields(3)[OF ax] "1.prems"(2) by (simp add: routed_append pace_sent)
  show ?case
  proof (cases o1)
    case (Inr v)
    with step "1.prems"(1) r1 show ?thesis by simp
  next
    case (Inl e)
    show ?thesis
    proof (cases "retryable e \<and> retries < MAX_RETRIES")
      case False
      with step Inl "1.prems"(1) r1 show ?thesis by auto
    next
      case True
      let ?s2 = "sleep (2 ^ retries * 1000) s1"
      from step Inl True "1.prems"(1)
      have rec: "rateLimitedRequest config peer (retries + 1) ?s2 = (r, s')" by simp
      from "1.IH"[OF ax[symmetric] Inl True rec "1.prems"(2)] have "routed P ?s2 s'" .
      moreover have "routed P s ?s2" using r1 by (simp add: routed_def sleep_fields)
      ultimately show ?thesis by (rule routed_trans[rotated])
    qed
  qed
qed

lemma routed_token_price:
  assumes "token_price w platform a s = (p, s')" and "P (Dispatched, CoinGeckoTokenPrice platform a)"
  shows "routed P s s'"
  using assms unfolding token_price_def
  by (auto split: prod.splits sum.splits dest: routed_rateLimitedRequest)

lemma routed_native_price:
  assumes "native_price w coin s = (p, s')" and "P (Dispatched, CoinGeckoSimplePrice coin)"
  shows "routed P s s'"
  using assms unfolding native_price_def
  by (auto split: prod.splits sum.splits dest: routed_rateLimitedRequest)

lemma ethereum_route_simps:
  "ethereum_route (Dispatched, CoinGeckoTokenPrice platform c)"
  "ethereum_route (Dispatched, CoinGeckoSimplePrice coin)"
  "ethereum_route (Direct, EthGetBalance a)"
  "ethereum_route (Direct, AlchemyGetTokenBalances a)"
  "ethereum_route (Direct, AlchemyGetTokenMetadata c)"
  "ethereum_route (Direct, EtherscanTxList a)"
  by (simp_all add: ethereum_route_def is_price_request_def is_ethereum_request_def)

lemma routed_ethereum_token:
  assumes "ethereum_token w token s = (r, s')"
  shows "routed ethereum_route s s'"
proof -
  obtain o1 s1 where ax: "axios Direct (AlchemyGetTokenMetadata (contractAddress token))
      (alchemy_getTokenMetadata w (contractAddress token)) s = (o1, s1)" by force
  have r1: "routed ethereum_route s s1"
    by (rule routed_axios[OF ax]) (rule ethereum_route_simps)
  obtain p s2 where tp: "token_price w ''ethereum'' (contractAddress token) s1 = (p, s2)" by force
  have r2: "routed ethereum_route s1 s2"
    by (rule routed_token_price[OF tp]) (rule ethereum_route_simps)
  from assms ax tp have "s' = s1 \<or> s' = s2"
    unfolding ethereum_token_def by (auto simp: Let_def split: sum.splits option.splits)
  with r1 r2 show ?thesis by (auto intro: routed_trans)
qed

lemma routed_ethereum_tokens:
  "ethereum_tokens w tokens s = (r, s') \<Longrightarrow> routed ethereum_route s s'"
proof (induction tokens arbitrary: s r s')
  case Nil
  then show ?case by (simp add: routed_refl)
next
  case (Cons token rest)
  obtain r1 s1 where t: "ethereum_token w token s = (r1, s1)" by force
  note a = routed_ethereum_token[OF t]
  show ?case
  proof (cases r1)
    case (Inl e)
    with Cons.prems t a show ?thesis by simp
  next
    case (Inr tk)
    obtain r2 s2 where ts: "ethereum_tokens w rest s1 = (r2, s2)" by force
    from Cons.prems t Inr ts have "s' = s2" by (auto split: sum.splits)
    with Cons.IH[OF ts] a show ?thesis by (auto intro: routed_trans)
  qed
qed

lemma routed_getEthereumWalletData_try:
  assumes "getEthereumWalletData_try w a s = (r, s')"
  shows "routed ethereum_route s s'"
proof -
  obtain o1 s1 where c1: "axios Direct (EthGetBalance a) (eth_getBalance w a) s = (o1, s1)"
    by force
  obtain o2 s2 where c2: "axios Direct (AlchemyGetTokenBalances a)
      (alchemy_getTokenBalances w a) s1 = (o2, s2)" by force
  have r1: "routed ethereum_route s s1"
    by (rule routed_axios[OF c1]) (rule ethereum_route_simps)
  have r2: "routed ethereum_route s s2"
    by (rule routed_trans[OF r1 routed_axios[OF c2]]) (rule ethereum_route_simps)
  have rest: "routed ethereum_route s2 s'"
    if ok: "o1 = Inr b" "o2 = Inr (Some listing)" for b listing
  proof -
    obtain o3 s3 where c3: "ethereum_tokens w (case listing of None \<Rightarrow> [] | Some l \<Rightarrow> l) s2 = (o3, s3)"
      by force
    obtain o4 s4 where c4: "axios Direct (EtherscanTxList a) (etherscan_txlist w a) s3 = (o4, s4)"
      by force
    obtain p s5 where c5: "native_price w ''ethereum'' s4 = (p, s5)" by force
    have r3: "routed ethereum_route s2 s3" by (rule routed_ethereum_tokens[OF c3])
    have r4: "routed ethereum_route s2 s4"
      by (rule routed_trans[OF r3 routed_axios[OF c4]]) (rule ethereum_route_simps)
    have r5: "routed ethereum_route s2 s5"
      by (rule routed_trans[OF r4 routed_native_price[OF c5]]) (rule ethereum_route_simps)
    from assms c1 c2 ok c3 c4 c5 have "s' = s3 \<or> s' = s4 \<or> s' = s5"
      unfolding getEthereumWalletData_try_def by (auto simp: Let_def split: sum.splits)
    with r3 r4 r5 show ?thesis by auto
  qed
  show ?thesis
  proof (cases o1)
    case (Inl e)
    with assms c1 have "s' = s1" unfolding getEthereumWalletData_try_def by simp
    with r1 show ?thesis by simp
  next
    case b: (Inr b)
    show ?thesis
    proof (cases o2)
      case (Inl e)
      with assms c1 c2 b have "s' = s2" unfolding getEthereumWalletData_try_def by (simp add: Let_def)
      with r2 show ?thesis by simp
    next
      case (Inr l)
      show ?thesis
      proof (cases l)
        case None
        with assms c1 c2 b Inr have "s' = s2"
          unfolding getEthereumWalletData_try_def by (simp add: Let_def)
        with r2 show ?thesis by simp
      next
        case (Some listing)
        with rest[OF b] Inr r2 show ?thesis by (auto intro: routed_trans)
      qed
    qed
  qed
qed

lemma routed_getEthereumWalletData:
  assumes "getEthereumWalletData w a s = (r, s')"
  shows "routed ethereum_route s s'"
  using assms routed_getEthereumWalletData_try[of w a s]
  unfolding getEthereumWalletData_def by (auto split: prod.splits sum.splits)

lemma dispatched_simp: "dispatched (Dispatched, c)"
  by (simp add: dispatched_def)

lemma routed_solana_token:
  assumes "solana_token w account s = (r, s')"
  shows "routed dispatched s s'"
proof -
  obtain i s1 where c1: "solana_token_info w account s = (i, s1)"
    by (cases "solana_token_info w account s")
  obtain o1 s0 where c0: "rateLimitedRequest SolanaTokenList (solana_token_list w) 0 s = (o1, s0)"
    by force
  from c1 c0 have "s1 = s0"
    unfolding solana_token_info_def by (auto split: sum.splits option.splits)
  with routed_rateLimitedRequest[OF c0, of dispatched] have r1: "routed dispatched s s1"
    by (simp add: dispatched_simp)
  obtain p s2 where c2: "token_price w ''solana'' (mint account) s1 = (p, s2)" by force
  have r2: "routed dispatched s1 s2"
    by (rule routed_token_price[OF c2]) (rule dispatched_simp)
  from assms c1 c2 have "s' = s2"
    unfolding solana_token_def by (auto split: prod.splits option.splits)
  with r1 r2 show ?thesis by (auto intro: routed_trans)
qed

lemma routed_solana_tokens:
  "solana_tokens w accounts s = (r, s') \<Longrightarrow> routed dispatched s s'"
proof (induction accounts arbitrary: s r s')
  case Nil
  then show ?case by (simp add: routed_refl)
next
  case (Cons account rest)
  obtain r1 s1 where t: "solana_token w account s = (r1, s1)" by force
  note a = routed_solana_token[OF t]
  show ?case
  proof (cases r1)
    case (Inl e)
    with Cons.prems t a show ?thesis by simp
  next
    case (Inr tk)
    obtain r2 s2 where ts: "solana_tokens w rest s1 = (r2, s2)" by force
    from Cons.prems t Inr ts have "s' = s2" by (auto split: sum.splits)
    with Cons.IH[OF ts] a show ?thesis by (auto intro: routed_trans)
  qed
qed

lemma routed_solana_transactions:
  "solana_transactions w a sigs s = (txs, s') \<Longrightarrow> routed dispatched s s'"
proof (induction sigs arbitrary: s txs s')
  case Nil
  then show ?case by (simp add: routed_refl)
next
  case (Cons sg sigs)
  show ?case
  proof (cases "sg = None \<or> sg = Some []")
    case True
    with Cons.prems have "solana_transactions w a sigs s = (txs, s')" by auto
    then show ?thesis by (rule Cons.IH)
  next
    case False
    then obtain signature where sg: "sg = Some signature" "signature \<noteq> []" by auto
    obtain o1 s1 where c1: "rateLimitedRequest (HeliusGetTransaction signature)
        (helius_getTransaction w signature) 0 s = (o1, s1)" by force
    have r1: "routed dispatched s s1"
      by (rule routed_rateLimitedRequest[OF c1]) (rule dispatched_simp)
    obtain txs2 s2 where c2: "solana_transactions w a sigs s1 = (txs2, s2)" by force
    from Cons.prems sg c1 c2 have "s' = s2"
      by (auto split: sum.splits option.splits)
    with Cons.IH[OF c2] r1 show ?thesis by (auto intro: routed_trans)
  qed
qed

lemma routed_getSolanaWalletData_try:
  assumes "getSolanaWalletData_try w a s = (r, s')"
  shows "routed dispatched s s'"
proof (cases "HELIUS_API_KEY w = []")
  case True
  with assms show ?thesis by (simp add: getSolanaWalletData_try_def routed_refl)
next
  case key: False
  obtain o1 s1 where c1: "rateLimitedRequest (HeliusGetBalance a) (helius_getBalance w a) 0 s = (o1, s1)"
    by force
  obtain o2 s2 where c2: "rateLimitedRequest (HeliusGetTokenAccountsByOwner a)
      (helius_getTokenAccountsByOwner w a) 0 s1 = (o2, s2)" by force
  have r1: "routed dispatched s s1"
    by (rule routed_rateLimitedRequest[OF c1]) (rule dispatched_simp)
  have r2: "routed dispatched s s2"
    by (rule routed_trans[OF r1 routed_rateLimitedRequest[OF c2]]) (rule dispatched_simp)
  have rest: "routed dispatched s2 s'"
    if ok: "o1 = Inr (Some b)" "o2 = Inr (Some accounts)" for b accounts
  proof -
    obtain o3 s3 where c3: "solana_tokens w (case accounts of None \<Rightarrow> [] | Some l \<Rightarrow> l) s2 = (o3, s3)"
      by force
    obtain o4 s4 where c4: "rateLimitedRequest (HeliusGetSignaturesForAddress a 5)
        (helius_getSignaturesForAddress w a 5) 0 s3 = (o4, s4)" by force
    have r3: "routed dispatched s2 s3" by (rule routed_solana_tokens[OF c3])
    have r4: "routed dispatched s2 s4"
      by (rule routed_trans[OF r3 routed_rateLimitedRequest[OF c4]]) (rule dispatched_simp)
    have r6: "routed dispatched s2 s'" if o3: "o3 = Inr tokens" and o4: "o4 = Inr result"
      for tokens result
    proof -
      obtain txs s5 where c5: "solana_transactions w a
          (take 5 (case result of None \<Rightarrow> [] | Some l \<Rightarrow> l)) s4 = (txs, s5)" by force
      obtain p s6 where c6: "native_price w ''solana'' s5 = (p, s6)" by force
      have r5: "routed dispatched s2 s5"
        by (rule routed_trans[OF r4 routed_solana_transactions[OF c5]])
      have "routed dispatched s2 s6"
        by (rule routed_trans[OF r5 routed_native_price[OF c6]]) (rule dispatched_simp)
      moreover from assms key c1 c2 ok c3 c4 o3 o4 c5 c6 have "s' = s6"
        unfolding getSolanaWalletData_try_def by simp
      ultimately show ?thesis by simp
    qed
    show ?thesis
    proof (cases o3)
      case (Inl e)
      with assms key c1 c2 ok c3 have "s' = s3" unfolding getSolanaWalletData_try_def by simp
      with r3 show ?thesis by simp
    next
      case tokens: (Inr tokens)
      show ?thesis
      proof (cases o4)
        case (Inl e)
        with assms key c1 c2 ok c3 tokens c4 have "s' = s4"
          unfolding getSolanaWalletData_try_def by simp
        with r4 show ?thesis by simp
      next
        case (Inr result)
        with r6[OF tokens] show ?thesis by simp
      qed
    qed
  qed
  show ?thesis
  proof (cases o1)
    case (Inl e)
    with assms key c1 have "s' = s1" unfolding getSolanaWalletData_try_def by simp
    with r1 show ?thesis by simp
  next
    case o1: (Inr b)
    show ?thesis
    proof (cases b)
      case None
      with assms key c1 o1 have "s' = s1" unfolding getSolanaWalletData_try_def by simp
      with r1 show ?thesis by simp
    next
      case b: (Some lamports)
      show ?thesis
      proof (cases o2)
        case (Inl e)
        with assms key c1 o1 b c2 have "s' = s2" unfolding getSolanaWalletData_try_def by simp
        with r2 show ?thesis by simp
      next
        case o2: (Inr l)
        show ?thesis
        proof (cases l)
          case None
          with assms key c1 o1 b c2 o2 have "s' = s2"
            unfolding getSolanaWalletData_try_def by simp
          with r2 show ?thesis by simp
        next
          case (Some accounts)
          with rest[of lamports accounts] o1 b o2 r2 show ?thesis by (auto intro: routed_trans)
        qed
      qed
    qed
  qed
qed

lemma routed_getSolanaWalletData:
  assumes "getSolanaWalletData w a s = (r, s')"
  shows "routed dispatched s s'"
  using assms routed_getSolanaWalletData_try[of w a s]
  unfolding getSolanaWalletData_def by (auto split: prod.splits sum.splits)

lemma ethereum_run:
  "\<exists>d s'. getEthereumWalletData sample_world eth_address start = (Inr d, s') \<and>
     map t_tokenAddress (w_tokens d) = [''0xA'', ''0xB'', ''0xC''] \<and>
     map t_price (w_tokens d) = [Num 3, Num 0, Num 3] \<and>
     map t_value (w_tokens d) = [Num 3, Num 0, Num 9] \<and>
     map t_balance (w_tokens d) = [''1'', ''2'', ''3''] \<and>
     map tx_type (w_transactions d) = [''receive''] \<and>
     sent s' =
       [(Direct, EthGetBalance eth_address),
        (Direct, AlchemyGetTokenBalances eth_address),
        (Direct, AlchemyGetTokenMetadata ''0xA''),
        (Dispatched, CoinGeckoTokenPrice ''ethereum'' ''0xA''),
        (Direct, AlchemyGetTokenMetadata ''0xB''),
        (Dispatched, CoinGeckoTokenPrice ''ethereum'' ''0xB''),
        (Direct, AlchemyGetTokenMetadata ''0xC''),
        (Dispatched, CoinGeckoTokenPrice ''ethereum'' ''0xC''),
        (Direct, EtherscanTxList eth_address),
        (Dispatched, CoinGeckoSimplePrice ''ethereum'')]"
  by (simp add: run_simps adapter_simps number_simps sample_host_def sample_listing_def
      sample_metadata_def sample_etherscan_tx_def ethereum_transaction_def eth_address_def)

text \<open>
  Claim C6, as the specification states it, fails on the Ethereum adapter: the balance
  request of a fetch is sent with \<^verbatim>\<open>axios\<close> directly.
\<close>

theorem ethereum_fetch_not_dispatched:
  "\<not> routed dispatched start (snd (getWalletData sample_world eth_address start))"
proof -
  have "getWalletData sample_world eth_address start =
          getEthereumWalletData sample_world eth_address start"
    by (simp add: getWalletData_def detectBlockchain_cases sample_addresses)
  with ethereum_run show ?thesis
    by (auto simp: routed_def dispatched_def start_def)
qed

text \<open>
  Claim C6, amended. Every request of the Solana adapter goes through
  \<^verbatim>\<open>rateLimitedRequest\<close>. Of the requests of the Ethereum adapter, the price lookups go
  through it, and the balance, the token listing, the metadata of each token and the
  transaction list are sent directly with \<^verbatim>\<open>axios\<close>. The aggregator sends what the
  adapter it selects sends.
\<close>

theorem routes_of_a_fetch:
  "routed ethereum_route s (snd (getEthereumWalletData w address s)) \<and>
   routed dispatched s (snd (getSolanaWalletData w address s)) \<and>
   routed (case detectBlockchain address of Some Ethereum \<Rightarrow> ethereum_route | _ \<Rightarrow> dispatched) s
     (snd (getWalletData w address s))"
proof -
  have e: "routed ethereum_route s (snd (getEthereumWalletData w address s))"
    by (rule routed_getEthereumWalletData) (rule surjective_pairing)
  have d: "routed dispatched s (snd (getSolanaWalletData w address s))"
    by (rule routed_getSolanaWalletData) (rule surjective_pairing)
  have "routed (case detectBlockchain address of Some Ethereum \<Rightarrow> ethereum_route | _ \<Rightarrow> dispatched) s
     (snd (getWalletData w address s))"
    using e d by (simp add: getWalletData_def routed_refl split: option.splits chain.splits)
  with e d show ?thesis by simp
qed

theorem routes_of_a_fetch_witness:
  "routed ethereum_route start (snd (getWalletData sample_world eth_address start)) \<and>
   routed dispatched start (snd (getWalletData sample_world sol_address start)) \<and>
   (Dispatched, CoinGeckoSimplePrice ''ethereum'')
     \<in> set (sent (snd (getWalletData sample_world eth_address start)))"
proof -
  have e: "detectBlockchain eth_address = Some Ethereum"
    and s: "detectBlockchain sol_address = Some Solana"
    by (simp_all add: detectBlockchain_cases sample_addresses)
  have "getWalletData sample_world eth_address start =
          getEthereumWalletData sample_world eth_address start"
    by (simp add: getWalletData_def e)
  with ethereum_run have "(Dispatched, CoinGeckoSimplePrice ''ethereum'')
     \<in> set (sent (snd (getWalletData sample_world eth_address start)))" by auto
  with routes_of_a_fetch[of start sample_world eth_address]
    routes_of_a_fetch[of start sample_world sol_address] e s
  show ?thesis by simp
qed

section \<open>Failures of the lookups for one item\<close>


















end
